theory Spec2Isabelle
  imports Complex_Main "HOL-Library.AList" "HOL-Library.Sublist"
begin

section \<open>Python values, faults and effects\<close>

text \<open>
  The two scripts \<^verbatim>\<open>train.py\<close> and \<^verbatim>\<open>test.py\<close> are glue around a deep-learning
  framework. Objects of the framework (tensors, modules, optimizers, datasets, state
  dictionaries) are values of one opaque type \<open>'x\<close>; what the framework computes
  is a parameter of every definition (the record \<open>framework\<close> below). The statements
  of the scripts themselves are embedded as they are written: dictionary accesses,
  branches, loops, unbound local variables, file writes and prints.
\<close>

subsection \<open>Faults raised by the scripts' own statements\<close>

datatype error =
    KeyError string
  | TypeError
  | UnboundLocalError string
  | AttributeError
  | ZeroDivisionError
  | StatisticsError
  | RuntimeError

subsection \<open>Configuration values\<close>

text \<open>
  What \<^verbatim>\<open>yaml.load\<close> returns, and what the scripts store into it afterwards: a nested
  Python value. A dict keeps its insertion order, so it is an association list.
\<close>

datatype 'x cfg =
    PNone
  | PBool bool
  | PInt int
  | PFloat real
  | PStr string
  | PList "'x cfg list"
  | PDict "(string \<times> 'x cfg) list"
  | PObj 'x

text \<open>\<^verbatim>\<open>d[k]\<close>: a missing key raises KeyError, subscripting a value that is no dict
  (None, a number) raises TypeError.\<close>

fun getitem :: "'x cfg \<Rightarrow> string \<Rightarrow> error + 'x cfg" where
  "getitem (PDict kvs) k =
     (case map_of kvs k of None \<Rightarrow> Inl (KeyError k) | Some v \<Rightarrow> Inr v)"
| "getitem _ k = Inl TypeError"

text \<open>\<^verbatim>\<open>d.get(k)\<close>: None for a missing key; a value that is no dict has no method
  \<^verbatim>\<open>get\<close>.\<close>

fun cfg_get :: "'x cfg \<Rightarrow> string \<Rightarrow> error + 'x cfg" where
  "cfg_get (PDict kvs) k = (case map_of kvs k of None \<Rightarrow> Inr PNone | Some v \<Rightarrow> Inr v)"
| "cfg_get _ k = Inl AttributeError"

text \<open>\<^verbatim>\<open>d[k] = v\<close>: replaces the value in place or appends the key.\<close>

fun setitem :: "'x cfg \<Rightarrow> string \<Rightarrow> 'x cfg \<Rightarrow> error + 'x cfg" where
  "setitem (PDict kvs) k v = Inr (PDict (AList.update k v kvs))"
| "setitem _ k v = Inl TypeError"

text \<open>\<^verbatim>\<open>a + 1\<close> on a configuration value: Python adds to an int, to a bool (an
  int: False is 0 and True is 1) and to a float, and raises TypeError for None, a string,
  a list, a dict and a state dictionary. A float is a real number here (the sum of a
  float is never looked at: \<^verbatim>\<open>range\<close> refuses it).\<close>

fun py_succ :: "'x cfg \<Rightarrow> error + 'x cfg" where
  "py_succ (PInt r) = Inr (PInt (r + 1))"
| "py_succ (PBool b) = Inr (PInt (if b then 2 else 1))"
| "py_succ (PFloat x) = Inr (PFloat (x + 1))"
| "py_succ _ = Inl TypeError"

text \<open>An argument of \<^verbatim>\<open>range\<close>: an int or a bool; anything else, a float among them,
  raises TypeError.\<close>

fun as_index :: "'x cfg \<Rightarrow> error + int" where
  "as_index (PInt n) = Inr n"
| "as_index (PBool b) = Inr (if b then 1 else 0)"
| "as_index _ = Inl TypeError"

text \<open>\<^verbatim>\<open>epoch % b == 0\<close> for an int \<open>epoch\<close> and a configuration value \<open>b\<close>. For an
  int it is the remainder of the floor division; a bool is the int 0 or 1; for a float
  the remainder is computed exactly, so it is zero when \<open>epoch / b\<close> is a whole number.
  A zero divisor (0, False, 0.0) raises ZeroDivisionError, a value that is no number
  raises TypeError. (The floats are the finite ones: a real number.)\<close>

fun mod_is_zero :: "int \<Rightarrow> 'x cfg \<Rightarrow> error + bool" where
  "mod_is_zero epoch (PInt k) = (if k = 0 then Inl ZeroDivisionError else Inr (epoch mod k = 0))"
| "mod_is_zero epoch (PBool b) = (if b then Inr True else Inl ZeroDivisionError)"
| "mod_is_zero epoch (PFloat x) =
     (if x = 0 then Inl ZeroDivisionError
      else Inr (of_int \<lfloor>of_int epoch / x\<rfloor> * x = of_int epoch))"
| "mod_is_zero epoch _ = Inl TypeError"

subsection \<open>Observable effects\<close>

text \<open>A piece of formatted output: literal text, an integer, a float printed with
  \<^verbatim>\<open>str\<close>, a float printed with \<^verbatim>\<open>{:.4f}\<close>, the \<^verbatim>\<open>str\<close> of a configuration value,
  a tuple of integers, and the text of a clock reading.\<close>

datatype 'x item =
    S string
  | I int
  | F real
  | F4 real
  | V "'x cfg"
  | Tuple "int list"
  | Clock

text \<open>What one write puts into a file.\<close>

datatype 'x chunk =
    Row "'x item list"
  | Yaml "'x cfg"
  | Pickle "'x cfg"

datatype 'x event =
    Print "'x item list"
  | Log "'x item list"
  | SetSavePath string
  | Write string "'x chunk"
  | Append string "'x chunk"
  | PbarOpen string nat
  | PbarUpdate
  | PbarClose
  | Call string
  | Enter string
  | Leave string

text \<open>The world the scripts act on: the files (each the list of chunks written to
  it) and the journal of what was done so far, oldest first: the output, the file
  operations, the progress bar, the calls of the framework's loaders and factories
  (\<open>Call\<close>) and the entries into and returns from \<^verbatim>\<open>train\<close> and \<^verbatim>\<open>eval_psnr\<close>.\<close>

record 'x world =
  files :: "string \<rightharpoonup> 'x chunk list"
  journal :: "'x event list"

definition emit :: "'x event \<Rightarrow> 'x world \<Rightarrow> 'x world" where
  "emit e w = w\<lparr>journal := journal w @ [e]\<rparr>"

text \<open>\<^verbatim>\<open>open(p, 'w')\<close> followed by one write, and \<^verbatim>\<open>torch.save(obj, p)\<close>: the file
  holds that chunk alone.\<close>

definition write_file :: "string \<Rightarrow> 'x chunk \<Rightarrow> 'x world \<Rightarrow> 'x world" where
  "write_file p c w = emit (Write p c) (w\<lparr>files := (files w)(p \<mapsto> [c])\<rparr>)"

text \<open>\<^verbatim>\<open>open(p, 'a')\<close> followed by one write: the chunk goes after what the file
  holds; a file that does not exist is created.\<close>

definition append_file :: "string \<Rightarrow> 'x chunk \<Rightarrow> 'x world \<Rightarrow> 'x world" where
  "append_file p c w =
     emit (Append p c)
       (w\<lparr>files := (files w)(p \<mapsto> (case files w p of None \<Rightarrow> [] | Some cs \<Rightarrow> cs) @ [c])\<rparr>)"

text \<open>\<^verbatim>\<open>os.path.join(a, b)\<close>: an absolute second component replaces the first.\<close>

definition path_join :: "string \<Rightarrow> string \<Rightarrow> string" where
  "path_join a b =
     (if b \<noteq> [] \<and> hd b = CHR ''/'' then b
      else if a = [] \<or> last a = CHR ''/'' then a @ b
      else a @ ''/'' @ b)"

subsection \<open>Statements that may raise\<close>

text \<open>A statement runs in a world and either raises or yields a value; the world it
  leaves behind is kept in both cases (what was written before a fault stays written).\<close>

type_synonym ('a, 'x) stmt = "'x world \<Rightarrow> (error + 'a) \<times> 'x world"

definition ret :: "'a \<Rightarrow> ('a, 'x) stmt" where
  "ret a w = (Inr a, w)"

definition raise :: "error \<Rightarrow> ('a, 'x) stmt" where
  "raise e w = (Inl e, w)"

definition bnd :: "('a, 'x) stmt \<Rightarrow> ('a \<Rightarrow> ('b, 'x) stmt) \<Rightarrow> ('b, 'x) stmt" where
  "bnd m f w = (case m w of (Inl e, w') \<Rightarrow> (Inl e, w') | (Inr a, w') \<Rightarrow> f a w')"

definition lift :: "error + 'a \<Rightarrow> ('a, 'x) stmt" where
  "lift r w = (r, w)"

definition eff :: "('x world \<Rightarrow> 'x world) \<Rightarrow> (unit, 'x) stmt" where
  "eff g w = (Inr (), g w)"

section \<open>The framework\<close>

text \<open>One batch of a data loader: the dict with keys \<^verbatim>\<open>inp\<close>, \<^verbatim>\<open>gt\<close> and
  \<^verbatim>\<open>gt_name\<close>.\<close>

record 'x batch =
  inp :: 'x
  gt :: 'x
  gt_name :: 'x

type_synonym metrics = "real \<times> real \<times> real \<times> real"

text \<open>
  Everything the scripts call and do not define. A mutable object is passed and returned
  as a value: a call that changes the model in place returns the changed model. The
  model carries its attribute \<^verbatim>\<open>optimizer\<close> once it is attached. A data loader is the
  list of batches one pass over it yields (the order a shuffling loader picks is the
  framework's). A call into the framework is taken to return.
\<close>

record 'x framework =
  yaml_load :: "string option \<Rightarrow> 'x cfg"
  datasets_make :: "'x cfg \<Rightarrow> 'x option \<Rightarrow> 'x"
  dataset_len :: "'x \<Rightarrow> int"
  dataset_first :: "'x \<Rightarrow> (string \<times> 'x) list"
  shape :: "'x \<Rightarrow> int list"
  DataLoader :: "'x \<Rightarrow> 'x cfg \<Rightarrow> bool \<Rightarrow> nat \<Rightarrow> 'x batch list"
  models_make :: "'x cfg \<Rightarrow> 'x"
  to_device :: "'x \<Rightarrow> 'x"
  torch_load :: "'x cfg \<Rightarrow> 'x"
  load_state_dict :: "'x \<Rightarrow> 'x \<Rightarrow> 'x"
  state_dict :: "'x \<Rightarrow> 'x"
  prompt_generator_state_dict :: "'x \<Rightarrow> 'x"
  decode_head_state_dict :: "'x \<Rightarrow> 'x"
  model_eval :: "'x \<Rightarrow> 'x"
  model_train :: "'x \<Rightarrow> 'x"
  forward :: "'x \<Rightarrow> 'x \<Rightarrow> 'x \<Rightarrow> int \<Rightarrow> 'x"
  gen_feat :: "'x \<Rightarrow> 'x \<Rightarrow> 'x"
  query_rgb :: "'x \<Rightarrow> 'x list \<Rightarrow> 'x"
  sigmoid :: "'x \<Rightarrow> 'x"
  cat :: "'x list \<Rightarrow> int \<Rightarrow> 'x"
  calc_f1 :: "'x \<Rightarrow> 'x \<Rightarrow> int option \<Rightarrow> metrics"
  calc_fmeasure :: "'x \<Rightarrow> 'x \<Rightarrow> int option \<Rightarrow> metrics"
  calc_ber :: "'x \<Rightarrow> 'x \<Rightarrow> int option \<Rightarrow> metrics"
  calc_cod :: "'x \<Rightarrow> 'x \<Rightarrow> int option \<Rightarrow> metrics"
  cal_dice_iou :: "'x \<Rightarrow> 'x \<Rightarrow> int option \<Rightarrow> metrics"
  parameters :: "'x \<Rightarrow> 'x"
  make_optimizer :: "'x \<Rightarrow> 'x cfg \<Rightarrow> 'x"
  CosineAnnealingLR :: "'x \<Rightarrow> 'x cfg \<Rightarrow> 'x cfg \<Rightarrow> 'x"
  scheduler_step :: "'x \<Rightarrow> 'x \<Rightarrow> 'x"
  compute_num_params :: "'x \<Rightarrow> string"
  attach_optimizer :: "'x \<Rightarrow> 'x \<Rightarrow> 'x"
  optimizer_state_dict :: "'x \<Rightarrow> 'x"
  named_parameters :: "'x \<Rightarrow> string list"
  requires_grad_False :: "'x \<Rightarrow> string \<Rightarrow> 'x"
  total_params :: "'x \<Rightarrow> int"
  grad_params :: "'x \<Rightarrow> int"
  zero_grad :: "'x \<Rightarrow> 'x"
  backward :: "'x \<Rightarrow> 'x \<Rightarrow> 'x"
  optimizer_step :: "'x \<Rightarrow> 'x"
  BCEWithLogitsLoss :: "'x option \<Rightarrow> 'x \<Rightarrow> 'x \<Rightarrow> 'x"
  torch_sum :: "'x \<Rightarrow> 'x"
  sum_dims :: "'x \<Rightarrow> int list \<Rightarrow> 'x"
  tensor_mean :: "'x \<Rightarrow> 'x"
  scalar :: "real \<Rightarrow> 'x"
  t_add :: "'x \<Rightarrow> 'x \<Rightarrow> 'x"
  t_sub :: "'x \<Rightarrow> 'x \<Rightarrow> 'x"
  t_mul :: "'x \<Rightarrow> 'x \<Rightarrow> 'x"
  t_div :: "'x \<Rightarrow> 'x \<Rightarrow> 'x"
  tensor_item :: "'x \<Rightarrow> real"

text \<open>\<^verbatim>\<open>torch.cat(tensors, dim)\<close>: the library refuses an empty list of tensors with a
  RuntimeError; on a list that is not empty the result is the framework's.\<close>

definition torch_cat :: "'x framework \<Rightarrow> 'x list \<Rightarrow> int \<Rightarrow> error + 'x" where
  "torch_cat fw tensors d = (if tensors = [] then Inl RuntimeError else Inr (cat fw tensors d))"

section \<open>test.py\<close>

subsection \<open>batched_predict\<close>

text \<open>\<^verbatim>\<open>coord[:, ql:qr, :]\<close>: the coordinates are listed along dimension 1, and a Python
  slice clips its bounds to the list (a negative bound counts from the end).\<close>

definition clip_index :: "int \<Rightarrow> int \<Rightarrow> nat" where
  "clip_index n i = (if i < 0 then nat (max (n + i) 0) else nat (min i n))"

definition py_slice :: "'a list \<Rightarrow> int \<Rightarrow> int \<Rightarrow> 'a list" where
  "py_slice xs a b =
     (let n = int (length xs); lo = clip_index n a; hi = clip_index n b
      in take (hi - lo) (drop lo xs))"

text \<open>The \<^verbatim>\<open>while ql < n\<close> loop. It need not end (it does not for \<^verbatim>\<open>bsize = 0\<close>), so
  not returning is the value \<open>None\<close>.\<close>

partial_function (option) batched_loop ::
  "'x framework \<Rightarrow> 'x \<Rightarrow> 'x list \<Rightarrow> int \<Rightarrow> int \<Rightarrow> int \<Rightarrow> 'x list \<Rightarrow> 'x list option" where
  "batched_loop fw model coord bsize n ql preds =
     (if ql < n then
        (let qr = min (ql + bsize) n;
             pred = query_rgb fw model (py_slice coord ql qr)
         in batched_loop fw model coord bsize n qr (preds @ [pred]))
      else Some preds)"

text \<open>The function: \<open>None\<close> when the loop does not end, otherwise the fault of
  \<^verbatim>\<open>torch.cat\<close> or the pair that is returned.\<close>

definition batched_predict ::
  "'x framework \<Rightarrow> 'x \<Rightarrow> 'x \<Rightarrow> 'x list \<Rightarrow> int \<Rightarrow> (error + 'x \<times> 'x list) option" where
  "batched_predict fw model inp0 coord bsize =
     (let model1 = gen_feat fw model inp0;
          n = int (length coord)
      in case batched_loop fw model1 coord bsize n 0 [] of
           None \<Rightarrow> None
         | Some preds \<Rightarrow>
             (case torch_cat fw preds 1 of
                Inl e \<Rightarrow> Some (Inl e)
              | Inr pred \<Rightarrow> Some (Inr (pred, preds))))"

subsection \<open>eval_psnr\<close>

text \<open>\<^verbatim>\<open>range(a, b, s)\<close> for a positive step.\<close>

function py_range :: "int \<Rightarrow> int \<Rightarrow> int \<Rightarrow> int list" where
  "py_range a b s = (if 0 < s \<and> a < b then a # py_range (a + s) b s else [])"
  by pat_completeness auto
termination
  by (relation "measure (\<lambda>(a, b, s). nat (b - a))") auto

type_synonym 'x metric_fn = "'x \<Rightarrow> 'x \<Rightarrow> int option \<Rightarrow> metrics"

type_synonym metric_names = "string \<times> string \<times> string \<times> string"

text \<open>The \<^verbatim>\<open>if eval_type == ... elif ...\<close> chain of both scripts. It has no
  \<^verbatim>\<open>else\<close>: outside the five strings \<^verbatim>\<open>metric_fn\<close> and the four names stay
  unbound, which is the value \<open>None\<close>.\<close>

definition select_metric :: "'x framework \<Rightarrow> 'x cfg \<Rightarrow> ('x metric_fn \<times> metric_names) option" where
  "select_metric fw eval_type =
     (if eval_type = PStr ''f1'' then
        Some (calc_f1 fw, (''f1'', ''auc'', ''none'', ''none''))
      else if eval_type = PStr ''fmeasure'' then
        Some (calc_fmeasure fw, (''f_mea'', ''mae'', ''none'', ''none''))
      else if eval_type = PStr ''ber'' then
        Some (calc_ber fw, (''shadow'', ''non_shadow'', ''ber'', ''none''))
      else if eval_type = PStr ''cod'' then
        Some (calc_cod fw, (''sm'', ''em'', ''wfm'', ''mae''))
      else if eval_type = PStr ''dice'' then
        Some (cal_dice_iou fw, (''dice'', ''iou'', ''none'', ''none''))
      else None)"

text \<open>Reading a local variable: unbound raises UnboundLocalError.\<close>

definition read_local :: "string \<Rightarrow> 'a option \<Rightarrow> ('a, 'x) stmt" where
  "read_local name v = (case v of None \<Rightarrow> raise (UnboundLocalError name) | Some a \<Rightarrow> ret a)"

text \<open>\<^verbatim>\<open>len(loader)\<close> and \<^verbatim>\<open>for batch in loader\<close>: the loader may be None.\<close>

definition loader_batches :: "'x batch list option \<Rightarrow> ('x batch list, 'x) stmt" where
  "loader_batches loader = (case loader of None \<Rightarrow> raise TypeError | Some bs \<Rightarrow> ret bs)"

text \<open>The \<^verbatim>\<open>for batch in loader\<close> loop of eval_psnr (the same in both scripts).\<close>

fun eval_batches ::
  "'x framework \<Rightarrow> 'x \<Rightarrow> 'x batch list \<Rightarrow> 'x list \<times> 'x list \<Rightarrow> ('x list \<times> 'x list, 'x) stmt" where
  "eval_batches fw model [] acc = ret acc"
| "eval_batches fw model (b # bs) (pred_list, gt_list) =
     (let inp1 = to_device fw (inp b);
          gt1 = to_device fw (gt b);
          pred = sigmoid fw (forward fw model inp1 gt1 1)
      in bnd (eff (emit PbarUpdate))
           (\<lambda>_. eval_batches fw model bs (pred_list @ [pred], gt_list @ [gt1])))"

text \<open>The \<^verbatim>\<open>for threshold in range(10, 255, 10)\<close> loop of test.py; \<open>res\<close> is what
  \<^verbatim>\<open>result1, ..., result4\<close> hold (nothing before the first pass).\<close>

fun threshold_loop ::
  "('x metric_fn \<times> metric_names) option \<Rightarrow> 'x \<Rightarrow> 'x \<Rightarrow> int list \<Rightarrow> metrics option
     \<Rightarrow> (metrics option, 'x) stmt" where
  "threshold_loop sel pred_list gt_list [] res = ret res"
| "threshold_loop sel pred_list gt_list (threshold # ts) res =
     bnd (read_local ''metric_fn'' sel)
       (\<lambda>(metric_fn, names).
          (let r = metric_fn pred_list gt_list (Some threshold)
           in bnd (eff (emit (Print [S ''threshold: '', I threshold, S '': dice: '', F (fst r)])))
                (\<lambda>_. threshold_loop sel pred_list gt_list ts (Some r))))"

definition default_data_norm :: "'x cfg" where
  "default_data_norm =
     PDict [(''inp'', PDict [(''sub'', PList [PInt 0]), (''div'', PList [PInt 1])]),
            (''gt'', PDict [(''sub'', PList [PInt 0]), (''div'', PList [PInt 1])])]"

text \<open>eval_psnr of test.py. The result carries the model, which \<^verbatim>\<open>model.eval()\<close>
  changed in place.\<close>

definition test_eval_psnr ::
  "'x framework \<Rightarrow> 'x batch list option \<Rightarrow> 'x \<Rightarrow> 'x cfg \<Rightarrow> 'x cfg \<Rightarrow> 'x cfg \<Rightarrow> bool
     \<Rightarrow> (metrics \<times> 'x, 'x) stmt" where
  "test_eval_psnr fw loader model data_norm eval_type eval_bsize verbose =
     (let model1 = model_eval fw model;
          data_norm1 = (if data_norm = PNone then default_data_norm else data_norm);
          sel = select_metric fw eval_type
      in bnd (eff (emit (Enter ''eval_psnr''))) (\<lambda>_.
         bnd (loader_batches loader) (\<lambda>bs.
         bnd (eff (emit (PbarOpen ''val'' (length bs)))) (\<lambda>_.
         bnd (eval_batches fw model1 bs ([], [])) (\<lambda>(pred_list, gt_list).
         bnd (eff (emit PbarClose)) (\<lambda>_.
         bnd (lift (torch_cat fw pred_list 1)) (\<lambda>preds.
         bnd (lift (torch_cat fw gt_list 1)) (\<lambda>gts.
         bnd (threshold_loop sel preds gts (py_range 10 255 10) None) (\<lambda>res.
         bnd (read_local ''result1'' res) (\<lambda>r.
         bnd (eff (emit (Leave ''eval_psnr''))) (\<lambda>_. ret (r, model1))))))))))))"

subsection \<open>The script\<close>

text \<open>The parsed command line of test.py; a flag that is not given is None, but
  \<^verbatim>\<open>--prompt\<close> defaults to \<^verbatim>\<open>'none'\<close>.\<close>

record test_args =
  arg_config :: "string option"
  arg_model :: "string option"
  arg_prompt :: string

definition opt_str :: "string option \<Rightarrow> 'x cfg" where
  "opt_str s = (case s of None \<Rightarrow> PNone | Some t \<Rightarrow> PStr t)"

definition test_script :: "'x framework \<Rightarrow> test_args \<Rightarrow> (unit, 'x) stmt" where
  "test_script fw args =
     bnd (eff (emit (Call ''yaml.load''))) (\<lambda>_.
     (let config = yaml_load fw (arg_config args)
      in bnd (lift (getitem config ''test_dataset'')) (\<lambda>spec.
         bnd (lift (getitem spec ''dataset'')) (\<lambda>dataset_spec.
         bnd (eff (emit (Call ''datasets.make''))) (\<lambda>_.
         (let dataset0 = datasets_make fw dataset_spec None
          in bnd (lift (getitem spec ''wrapper'')) (\<lambda>wrapper_spec.
             bnd (eff (emit (Call ''datasets.make''))) (\<lambda>_.
             (let dataset = datasets_make fw wrapper_spec (Some dataset0)
              in bnd (lift (getitem spec ''batch_size'')) (\<lambda>batch_size.
                 bnd (eff (emit (Call ''DataLoader''))) (\<lambda>_.
                 (let loader = DataLoader fw dataset batch_size False 8
                  in bnd (lift (getitem config ''model'')) (\<lambda>model_spec.
                     bnd (eff (emit (Call ''models.make''))) (\<lambda>_.
                     bnd (eff (emit (Call ''torch.load''))) (\<lambda>_.
                     (let model0 = to_device fw (models_make fw model_spec);
                          sam_checkpoint = torch_load fw (opt_str (arg_model args));
                          model = load_state_dict fw model0 sam_checkpoint
                      in bnd (lift (cfg_get config ''data_norm'')) (\<lambda>data_norm.
                         bnd (lift (cfg_get config ''eval_type'')) (\<lambda>eval_type.
                         bnd (lift (cfg_get config ''eval_bsize'')) (\<lambda>eval_bsize.
                         bnd (test_eval_psnr fw (Some loader) model data_norm eval_type eval_bsize True)
                           (\<lambda>((metric1, metric2, metric3, metric4), model1).
                         bnd (eff (emit (Print [S ''metric1: '', F4 metric1]))) (\<lambda>_.
                         bnd (eff (emit (Print [S ''metric2: '', F4 metric2]))) (\<lambda>_.
                         bnd (eff (emit (Print [S ''metric3: '', F4 metric3]))) (\<lambda>_.
                         bnd (eff (emit (Print [S ''metric4: '', F4 metric4]))) (\<lambda>_.
                         bnd (lift (getitem config ''resume'')) (\<lambda>epoch.
                         eff (append_file ''./save/test_log.csv''
                                (Row [V epoch, F metric1, F metric2, F metric3, F metric4]))
                         )))))))))))))))))))))))))"

section \<open>train.py\<close>

subsection \<open>The losses defined in train.py\<close>

text \<open>\<^verbatim>\<open>BBCEWithLogitLoss.forward\<close> (train.py, line 29): the class-balance weights are
  computed here, from tensor arithmetic, and handed to the framework's
  \<^verbatim>\<open>BCEWithLogitsLoss\<close>.\<close>

definition BBCEWithLogitLoss_forward :: "'x framework \<Rightarrow> 'x \<Rightarrow> 'x \<Rightarrow> 'x" where
  "BBCEWithLogitLoss_forward fw pred gt0 =
     (let eps = scalar fw (1 / 10 ^ 10);
          count_pos = t_add fw (torch_sum fw gt0) eps;
          count_neg = torch_sum fw (t_sub fw (scalar fw 1) gt0);
          ratio = t_div fw count_neg count_pos;
          w_neg = t_div fw count_pos (t_add fw count_pos count_neg);
          bce1 = BCEWithLogitsLoss fw (Some ratio)
      in t_mul fw w_neg (bce1 pred gt0))"

text \<open>\<^verbatim>\<open>_iou_loss\<close> (train.py, line 41).\<close>

definition iou_loss :: "'x framework \<Rightarrow> 'x \<Rightarrow> 'x \<Rightarrow> 'x" where
  "iou_loss fw pred0 target =
     (let pred = sigmoid fw pred0;
          inter = sum_dims fw (t_mul fw pred target) [2, 3];
          union = t_sub fw (sum_dims fw (t_add fw pred target) [2, 3]) inter;
          iou = t_sub fw (scalar fw 1) (t_div fw inter union)
      in tensor_mean fw iou)"

text \<open>The class \<^verbatim>\<open>train\<close> instantiates as \<^verbatim>\<open>criterionBCE\<close>: the framework's
  \<^verbatim>\<open>torch.nn.BCEWithLogitsLoss()\<close> or the script's own \<^verbatim>\<open>BBCEWithLogitLoss()\<close>.\<close>

datatype criterion = Torch_BCEWithLogitsLoss | Own_BBCEWithLogitLoss

definition select_criterion :: "'x cfg \<Rightarrow> criterion option" where
  "select_criterion loss_mode =
     (if loss_mode = PStr ''bce'' then Some Torch_BCEWithLogitsLoss
      else if loss_mode = PStr ''bbce'' then Some Own_BBCEWithLogitLoss
      else if loss_mode = PStr ''iou'' then Some Torch_BCEWithLogitsLoss
      else None)"

fun apply_criterion :: "'x framework \<Rightarrow> criterion \<Rightarrow> 'x \<Rightarrow> 'x \<Rightarrow> 'x" where
  "apply_criterion fw Torch_BCEWithLogitsLoss pred gt0 = BCEWithLogitsLoss fw None pred gt0"
| "apply_criterion fw Own_BBCEWithLogitLoss pred gt0 = BBCEWithLogitLoss_forward fw pred gt0"

text \<open>Lines 178 to 188 of \<^verbatim>\<open>train\<close>: the loss of one batch.\<close>

definition batch_loss :: "'x framework \<Rightarrow> 'x cfg \<Rightarrow> 'x \<Rightarrow> 'x \<Rightarrow> error + 'x" where
  "batch_loss fw loss_mode pred gt0 =
     (case select_criterion loss_mode of
        None \<Rightarrow> Inl (UnboundLocalError ''criterionBCE'')
      | Some criterionBCE \<Rightarrow>
          (let l = apply_criterion fw criterionBCE pred gt0
           in if loss_mode = PStr ''iou'' then Inr (t_add fw l (iou_loss fw pred gt0))
              else Inr l))"

subsection \<open>Data loaders\<close>

fun log_shapes :: "'x framework \<Rightarrow> (string \<times> 'x) list \<Rightarrow> (unit, 'x) stmt" where
  "log_shapes fw [] = ret ()"
| "log_shapes fw ((k, v) # kvs) =
     (if k = ''gt_name'' then log_shapes fw kvs
      else bnd (eff (emit (Log [S ''  '', S k, S '': shape='', Tuple (shape fw v)])))
             (\<lambda>_. log_shapes fw kvs))"

definition make_data_loader :: "'x framework \<Rightarrow> 'x cfg \<Rightarrow> string \<Rightarrow> ('x batch list option, 'x) stmt" where
  "make_data_loader fw spec tag =
     (if spec = PNone then ret None
      else
        bnd (lift (getitem spec ''dataset'')) (\<lambda>dataset_spec.
        bnd (eff (emit (Call ''datasets.make''))) (\<lambda>_.
        (let dataset0 = datasets_make fw dataset_spec None
         in bnd (lift (getitem spec ''wrapper'')) (\<lambda>wrapper_spec.
            bnd (eff (emit (Call ''datasets.make''))) (\<lambda>_.
            (let dataset = datasets_make fw wrapper_spec (Some dataset0)
             in bnd (eff (emit (Log [S tag, S '' dataset: size='', I (dataset_len fw dataset)]))) (\<lambda>_.
                bnd (log_shapes fw (dataset_first fw dataset)) (\<lambda>_.
                bnd (lift (getitem spec ''batch_size'')) (\<lambda>batch_size.
                bnd (eff (emit (Call ''DataLoader''))) (\<lambda>_.
                ret (Some (DataLoader fw dataset batch_size True 6)))))))))))))"

definition make_data_loaders ::
  "'x framework \<Rightarrow> 'x cfg \<Rightarrow> ('x batch list option \<times> 'x batch list option, 'x) stmt" where
  "make_data_loaders fw config =
     bnd (lift (cfg_get config ''train_dataset'')) (\<lambda>train_spec.
     bnd (make_data_loader fw train_spec ''train'') (\<lambda>train_loader.
     bnd (lift (cfg_get config ''val_dataset'')) (\<lambda>val_spec.
     bnd (make_data_loader fw val_spec ''val'') (\<lambda>val_loader.
     ret (train_loader, val_loader)))))"

subsection \<open>eval_psnr\<close>

text \<open>eval_psnr of train.py: one call of the metric function, without a threshold; the
  four names are returned after the four results.\<close>

definition eval_psnr ::
  "'x framework \<Rightarrow> 'x batch list option \<Rightarrow> 'x \<Rightarrow> 'x cfg
     \<Rightarrow> ((metrics \<times> metric_names) \<times> 'x, 'x) stmt" where
  "eval_psnr fw loader model eval_type =
     (let model1 = model_eval fw model;
          sel = select_metric fw eval_type
      in bnd (eff (emit (Enter ''eval_psnr''))) (\<lambda>_.
         bnd (loader_batches loader) (\<lambda>bs.
         bnd (eff (emit (PbarOpen ''val'' (length bs)))) (\<lambda>_.
         bnd (eval_batches fw model1 bs ([], [])) (\<lambda>(pred_list, gt_list).
         bnd (eff (emit PbarClose)) (\<lambda>_.
         bnd (lift (torch_cat fw pred_list 1)) (\<lambda>preds.
         bnd (lift (torch_cat fw gt_list 1)) (\<lambda>gts.
         bnd (read_local ''metric_fn'' sel) (\<lambda>(metric_fn, names).
         (let r = metric_fn preds gts None
          in bnd (eff (emit (Leave ''eval_psnr''))) (\<lambda>_.
             ret ((r, names), model1))))))))))))"

subsection \<open>prepare_training\<close>

text \<open>Both branches are written out, as in the source.\<close>

definition prepare_training ::
  "'x framework \<Rightarrow> 'x cfg \<Rightarrow> ('x \<times> 'x \<times> 'x cfg \<times> 'x, 'x) stmt" where
  "prepare_training fw config =
     bnd (lift (cfg_get config ''resume'')) (\<lambda>resume.
     bnd (if resume \<noteq> PNone then
            bnd (lift (getitem config ''model'')) (\<lambda>model_spec.
            bnd (eff (emit (Call ''models.make''))) (\<lambda>_.
            (let model = to_device fw (models_make fw model_spec)
             in bnd (lift (getitem config ''optimizer'')) (\<lambda>optimizer_spec.
                (let optimizer = make_optimizer fw (parameters fw model) optimizer_spec
                 in bnd (lift (cfg_get config ''resume'')) (\<lambda>r.
                    bnd (lift (py_succ r)) (\<lambda>epoch_start.
                    ret (model, optimizer, epoch_start))))))))
          else
            bnd (lift (getitem config ''model'')) (\<lambda>model_spec.
            bnd (eff (emit (Call ''models.make''))) (\<lambda>_.
            (let model = to_device fw (models_make fw model_spec)
             in bnd (lift (getitem config ''optimizer'')) (\<lambda>optimizer_spec.
                (let optimizer = make_optimizer fw (parameters fw model) optimizer_spec
                 in ret (model, optimizer, PInt 1)))))))
       (\<lambda>(model, optimizer, epoch_start).
     bnd (lift (cfg_get config ''epoch_max'')) (\<lambda>max_epoch.
     bnd (lift (cfg_get config ''lr_min'')) (\<lambda>lr_min.
     (let lr_scheduler = CosineAnnealingLR fw optimizer max_epoch lr_min
      in bnd (eff (emit (Log [S ''model: #params='', S (compute_num_params fw model)]))) (\<lambda>_.
         ret (model, optimizer, epoch_start, lr_scheduler)))))))"

subsection \<open>train\<close>

text \<open>\<^verbatim>\<open>statistics.mean\<close>: the empty list raises StatisticsError.\<close>

definition mean :: "real list \<Rightarrow> error + real" where
  "mean xs = (if xs = [] then Inl StatisticsError else Inr (sum_list xs / real (length xs)))"

text \<open>The \<^verbatim>\<open>for batch in train_loader\<close> loop; the model is updated by every batch.\<close>

fun train_batches ::
  "'x framework \<Rightarrow> 'x cfg \<Rightarrow> 'x batch list \<Rightarrow> 'x \<Rightarrow> 'x list \<Rightarrow> ('x \<times> 'x list, 'x) stmt" where
  "train_batches fw loss_mode [] model loss_list = ret (model, loss_list)"
| "train_batches fw loss_mode (b # bs) model loss_list =
     (let inp1 = to_device fw (inp b);
          gt1 = to_device fw (gt b);
          model1 = zero_grad fw model;
          pred = forward fw model1 inp1 gt1 40
      in bnd (lift (batch_loss fw loss_mode pred gt1)) (\<lambda>l.
         (let model2 = optimizer_step fw (backward fw model1 l)
          in bnd (eff (emit PbarUpdate)) (\<lambda>_.
             train_batches fw loss_mode bs model2 (loss_list @ [l])))))"

definition train ::
  "'x framework \<Rightarrow> 'x batch list option \<Rightarrow> 'x \<Rightarrow> 'x cfg \<Rightarrow> (real \<times> 'x, 'x) stmt" where
  "train fw train_loader model loss_mode =
     (let model1 = model_train fw model
      in bnd (eff (emit (Enter ''train''))) (\<lambda>_.
         bnd (loader_batches train_loader) (\<lambda>bs.
         bnd (eff (emit (PbarOpen ''train'' (length bs)))) (\<lambda>_.
         bnd (train_batches fw loss_mode bs model1 []) (\<lambda>(model2, loss_list).
         bnd (eff (emit PbarClose)) (\<lambda>_.
         bnd (lift (mean (map (tensor_item fw) loss_list))) (\<lambda>m.
         bnd (eff (emit (Leave ''train''))) (\<lambda>_.
         ret (m, model2)))))))))"

subsection \<open>save\<close>

definition save :: "'x framework \<Rightarrow> 'x cfg \<Rightarrow> 'x \<Rightarrow> string \<Rightarrow> string \<Rightarrow> (unit, 'x) stmt" where
  "save fw config model save_path name =
     bnd (lift (getitem config ''model'')) (\<lambda>model_spec.
     bnd (lift (getitem model_spec ''name'')) (\<lambda>model_name.
     if model_name = PStr ''segformer'' \<or> model_name = PStr ''setr'' then
       bnd (lift (getitem model_spec ''args'')) (\<lambda>args.
       bnd (lift (getitem args ''encoder_mode'')) (\<lambda>encoder_mode.
       bnd (lift (getitem encoder_mode ''name'')) (\<lambda>encoder_name.
       if encoder_name = PStr ''evp'' then
         (let prompt_generator = prompt_generator_state_dict fw model;
              decode_head = decode_head_state_dict fw model
          in eff (write_file (path_join save_path (''prompt_epoch_'' @ name @ ''.pth''))
                    (Pickle (PDict [(''prompt'', PObj prompt_generator),
                                    (''decode_head'', PObj decode_head)]))))
       else
         eff (write_file (path_join save_path (''model_epoch_'' @ name @ ''.pth''))
                (Pickle (PObj (state_dict fw model)))))))
     else
       eff (write_file (path_join save_path (''model_epoch_'' @ name @ ''.pth''))
              (Pickle (PObj (state_dict fw model))))))"

subsection \<open>main\<close>

text \<open>The loop over \<^verbatim>\<open>model.named_parameters()\<close> that freezes the image encoder
  outside its prompt generator; \<^verbatim>\<open>a in name\<close> is the substring test.\<close>

definition freeze_image_encoder :: "'x framework \<Rightarrow> 'x \<Rightarrow> 'x" where
  "freeze_image_encoder fw model =
     foldl (\<lambda>m name.
              if sublist ''image_encoder'' name \<and> \<not> sublist ''prompt_generator'' name
              then requires_grad_False fw m name else m)
       model (named_parameters fw model)"

text \<open>\<^verbatim>\<open>', '.join(log_info)\<close>.\<close>

fun join_items :: "'x item list list \<Rightarrow> 'x item list" where
  "join_items [] = []"
| "join_items [l] = l"
| "join_items (l # ls) = l @ [S '', ''] @ join_items ls"

text \<open>What the epoch loop reads and does not change, and the variables it updates.
  \<open>cur_config\<close> is the config dict, into which every epoch stores the state
  dictionaries; the optimizer is the one attached to the model.\<close>

record 'x loop_env =
  save_path :: string
  train_loader :: "'x batch list option"
  val_loader :: "'x batch list option"
  lr_scheduler :: 'x
  epoch_max :: "'x cfg"
  epoch_val :: "'x cfg"

record 'x loop_state =
  cur_config :: "'x cfg"
  cur_model :: 'x
  max_val_v :: real
  best_loss :: real

text \<open>Lines 276 to 305: validation, the \<^verbatim>\<open>best\<close> checkpoint and the log line of the
  epoch. The result is the new \<^verbatim>\<open>max_val_v\<close> and the model.\<close>

definition validate ::
  "'x framework \<Rightarrow> 'x loop_env \<Rightarrow> 'x cfg \<Rightarrow> 'x \<Rightarrow> real \<Rightarrow> 'x item list list
     \<Rightarrow> (real \<times> 'x, 'x) stmt" where
  "validate fw env config model max_v log_info =
     bnd (lift (cfg_get config ''eval_type'')) (\<lambda>eval_type.
     bnd (eval_psnr fw (val_loader env) model eval_type)
       (\<lambda>(((result1, result2, result3, result4), (metric1, metric2, metric3, metric4)), model1).
     (let log_info1 = log_info @
            [[S ''val: '', S metric1, S ''='', F4 result1],
             [S ''val: '', S metric2, S ''='', F4 result2],
             [S ''val: '', S metric3, S ''='', F4 result3],
             [S ''val: '', S metric4, S ''='', F4 result4]]
      in bnd (lift (getitem config ''eval_type'')) (\<lambda>eval_type1.
         bnd (if eval_type1 \<noteq> PStr ''ber'' then
                (if result1 > max_v then
                   bnd (eff (emit (Print [S ''result1: '', F result1]))) (\<lambda>_.
                   bnd (save fw config model1 (save_path env) ''best'') (\<lambda>_.
                   ret result1))
                 else ret max_v)
              else
                (if result3 < max_v then
                   bnd (eff (emit (Print [S ''result3 : '', F result3, S '', max_v: '', F max_v]))) (\<lambda>_.
                   bnd (save fw config model1 (save_path env) ''best'') (\<lambda>_.
                   ret result3))
                 else ret max_v))
           (\<lambda>max_v1.
         (let log_info2 = log_info1 @ [[Clock, S '' '', Clock, S ''/'', Clock]]
          in bnd (eff (emit (Log (join_items log_info2)))) (\<lambda>_.
             ret (max_v1, model1))))))))"

text \<open>The body of \<^verbatim>\<open>for epoch in range(epoch_start, epoch_max + 1)\<close>, in three
  parts. Lines 248 to 262: training, the step of the scheduler and the row of the
  training log; the result is the loss, the model and \<^verbatim>\<open>log_info\<close>.\<close>

definition train_epoch ::
  "'x framework \<Rightarrow> 'x loop_env \<Rightarrow> 'x loop_state \<Rightarrow> int
     \<Rightarrow> (real \<times> 'x \<times> 'x item list list, 'x) stmt" where
  "train_epoch fw env st epoch =
     bnd (eff (emit (Print [I epoch, S '' : '']))) (\<lambda>_.
     bnd (lift (getitem (cur_config st) ''model'')) (\<lambda>model_spec0.
     bnd (lift (getitem model_spec0 ''args'')) (\<lambda>model_args.
     bnd (lift (getitem model_args ''loss'')) (\<lambda>loss_mode.
     bnd (train fw (train_loader env) (cur_model st) loss_mode) (\<lambda>(train_loss_G, model1).
     (let model2 = scheduler_step fw (lr_scheduler env) model1
      in bnd (eff (append_file ''./save/training_log.csv'' (Row [I epoch, F train_loss_G]))) (\<lambda>_.
         (let log_info = [[S ''epoch '', I epoch, S ''/'', V (epoch_max env)],
                          [S ''train G: loss='', F4 train_loss_G]]
          in ret (train_loss_G, model2, log_info)))))))))"

text \<open>Lines 265 to 274: the state dictionaries go into the config, then the checkpoints
  \<^verbatim>\<open>last\<close> and, for a smaller loss, \<^verbatim>\<open>best_loss\<close>; the result is the config
  and the new \<^verbatim>\<open>best_loss\<close>.\<close>

definition checkpoints ::
  "'x framework \<Rightarrow> 'x loop_env \<Rightarrow> 'x loop_state \<Rightarrow> 'x \<Rightarrow> real \<Rightarrow> ('x cfg \<times> real, 'x) stmt" where
  "checkpoints fw env st model2 train_loss_G =
     bnd (lift (getitem (cur_config st) ''model'')) (\<lambda>model_spec.
     bnd (lift (setitem model_spec ''sd'' (PObj (state_dict fw model2)))) (\<lambda>model_spec1.
     bnd (lift (setitem (cur_config st) ''model'' model_spec1)) (\<lambda>config1.
     bnd (lift (getitem config1 ''optimizer'')) (\<lambda>optimizer_spec.
     bnd (lift (setitem optimizer_spec ''sd'' (PObj (optimizer_state_dict fw model2)))) (\<lambda>optimizer_spec1.
     bnd (lift (setitem config1 ''optimizer'' optimizer_spec1)) (\<lambda>config2.
     bnd (save fw config2 model2 (save_path env) ''last'') (\<lambda>_.
     bnd (if train_loss_G < best_loss st then
            bnd (save fw config2 model2 (save_path env) ''best_loss'') (\<lambda>_.
            ret train_loss_G)
          else ret (best_loss st)) (\<lambda>best_loss1.
     ret (config2, best_loss1)))))))))"

text \<open>Lines 276 and 277: whether the epoch is validated (\<^verbatim>\<open>epoch_val\<close> may be any value
  of the config file).\<close>

definition validation ::
  "'x framework \<Rightarrow> 'x loop_env \<Rightarrow> 'x loop_state \<Rightarrow> int \<Rightarrow> 'x cfg \<Rightarrow> 'x \<Rightarrow> 'x item list list
     \<Rightarrow> (real \<times> 'x, 'x) stmt" where
  "validation fw env st epoch config2 model2 log_info =
     (if epoch_val env \<noteq> PNone then
        bnd (lift (mod_is_zero epoch (epoch_val env))) (\<lambda>divides.
        if divides then validate fw env config2 model2 (max_val_v st) log_info
        else ret (max_val_v st, model2))
      else ret (max_val_v st, model2))"

definition epoch_body ::
  "'x framework \<Rightarrow> 'x loop_env \<Rightarrow> 'x loop_state \<Rightarrow> int \<Rightarrow> ('x loop_state, 'x) stmt" where
  "epoch_body fw env st epoch =
     bnd (train_epoch fw env st epoch) (\<lambda>(train_loss_G, model2, log_info).
     bnd (checkpoints fw env st model2 train_loss_G) (\<lambda>(config2, best_loss1).
     bnd (validation fw env st epoch config2 model2 log_info) (\<lambda>(max_v1, model3).
     ret \<lparr>cur_config = config2, cur_model = model3,
          max_val_v = max_v1, best_loss = best_loss1\<rparr>)))"

fun epoch_loop ::
  "'x framework \<Rightarrow> 'x loop_env \<Rightarrow> int list \<Rightarrow> 'x loop_state \<Rightarrow> ('x loop_state, 'x) stmt" where
  "epoch_loop fw env [] st = ret st"
| "epoch_loop fw env (epoch # epochs) st =
     bnd (epoch_body fw env st epoch) (\<lambda>st1. epoch_loop fw env epochs st1)"

text \<open>\<^verbatim>\<open>main\<close> up to line 245: everything before the epoch loop. The result is what the
  loop reads, the variables it updates, and \<^verbatim>\<open>epoch_start\<close>.\<close>

definition main_setup ::
  "'x framework \<Rightarrow> 'x cfg \<Rightarrow> string \<Rightarrow> ('x loop_env \<times> 'x loop_state \<times> 'x cfg, 'x) stmt" where
  "main_setup fw config path =
     bnd (eff (emit (SetSavePath path))) (\<lambda>_.
     bnd (eff (write_file (path_join path ''config.yaml'') (Yaml config))) (\<lambda>_.
     bnd (make_data_loaders fw config) (\<lambda>(train_loader0, val_loader0).
     bnd (lift (cfg_get config ''data_norm'')) (\<lambda>data_norm.
     bnd (if data_norm = PNone then lift (setitem config ''data_norm'' default_data_norm)
          else ret config) (\<lambda>config1.
     bnd (prepare_training fw config1) (\<lambda>(model, optimizer, epoch_start, lr_scheduler0).
     (let model1 = attach_optimizer fw model optimizer
      in bnd (lift (getitem config1 ''epoch_max'')) (\<lambda>epoch_max0.
         bnd (lift (cfg_get config1 ''lr_min'')) (\<lambda>lr_min.
         (let lr_scheduler1 = CosineAnnealingLR fw optimizer epoch_max0 lr_min;
              model2 = to_device fw model1
          in bnd (lift (getitem config1 ''sam_checkpoint'')) (\<lambda>sam_path.
             bnd (eff (emit (Call ''torch.load''))) (\<lambda>_.
             (let sam_checkpoint = torch_load fw sam_path;
                  model3 = load_state_dict fw model2 sam_checkpoint;
                  model4 = freeze_image_encoder fw model3
              in bnd (eff (emit (Print [S ''model_grad_params:'', I (grad_params fw model4), S '' '',
                                        S (CHR 0x0A # ''model_total_params:''),
                                        I (total_params fw model4)]))) (\<lambda>_.
                 bnd (lift (getitem config1 ''epoch_max'')) (\<lambda>epoch_max1.
                 bnd (lift (cfg_get config1 ''epoch_val'')) (\<lambda>epoch_val1.
                 bnd (lift (getitem config1 ''eval_type'')) (\<lambda>eval_type.
                 (let max_val_v0 = (if eval_type \<noteq> PStr ''ber'' then - (10 ^ 18) else 10 ^ 8);
                      best_loss0 = 10 ^ 8
                  in ret (\<lparr>save_path = path, train_loader = train_loader0,
                            val_loader = val_loader0, lr_scheduler = lr_scheduler1,
                            epoch_max = epoch_max1, epoch_val = epoch_val1\<rparr>,
                          \<lparr>cur_config = config1, cur_model = model4,
                            max_val_v = max_val_v0, best_loss = best_loss0\<rparr>,
                          epoch_start)))))))))))))))))))"

text \<open>\<^verbatim>\<open>range(a, b)\<close> on two values.\<close>

definition range2 :: "'x cfg \<Rightarrow> 'x cfg \<Rightarrow> error + int list" where
  "range2 a b =
     (case as_index a of
        Inl e \<Rightarrow> Inl e
      | Inr lo \<Rightarrow> (case as_index b of Inl e \<Rightarrow> Inl e | Inr hi \<Rightarrow> Inr (py_range lo hi 1)))"

text \<open>\<^verbatim>\<open>main\<close>: the setup, then \<^verbatim>\<open>for epoch in range(epoch_start, epoch_max + 1)\<close>.
  The result is the state after the last epoch.\<close>

definition main :: "'x framework \<Rightarrow> 'x cfg \<Rightarrow> string \<Rightarrow> ('x loop_state, 'x) stmt" where
  "main fw config path =
     bnd (main_setup fw config path) (\<lambda>(env, st, epoch_start).
     bnd (lift (py_succ (epoch_max env))) (\<lambda>stop.
     bnd (lift (range2 epoch_start stop)) (\<lambda>epochs.
     epoch_loop fw env epochs st)))"

subsection \<open>The script\<close>

text \<open>The parsed command line of train.py: \<^verbatim>\<open>--config\<close> has a default,
  \<^verbatim>\<open>--name\<close> and \<^verbatim>\<open>--tag\<close> default to None.\<close>

record train_args =
  targ_config :: string
  targ_name :: "string option"
  targ_tag :: "string option"

text \<open>\<^verbatim>\<open>args.config.split('/')[-1][:-len('.yaml')]\<close>.\<close>

definition config_stem :: "string \<Rightarrow> string" where
  "config_stem p =
     (let base = rev (takeWhile (\<lambda>c. c \<noteq> CHR ''/'') (rev p))
      in take (length base - 5) base)"

definition train_script :: "'x framework \<Rightarrow> train_args \<Rightarrow> ('x loop_state, 'x) stmt" where
  "train_script fw args =
     bnd (eff (emit (Call ''yaml.load''))) (\<lambda>_.
     (let config = yaml_load fw (Some (targ_config args));
          save_name0 = (case targ_name args of
                          None \<Rightarrow> ''_'' @ config_stem (targ_config args)
                        | Some n \<Rightarrow> n);
          save_name = (case targ_tag args of
                         None \<Rightarrow> save_name0
                       | Some t \<Rightarrow> save_name0 @ ''_'' @ t)
      in main fw config (path_join ''./save'' save_name)))"

section \<open>Reference definitions and a concrete framework\<close>

text \<open>Cutting a list into consecutive pieces of \<open>k\<close> elements (the last one may be
  shorter): what the index range \<open>[0, n)\<close> split into chunks of size at most
  \<open>bsize\<close> means.\<close>

function chunks :: "nat \<Rightarrow> 'a list \<Rightarrow> 'a list list" where
  "chunks k xs = (if k = 0 \<or> xs = [] then [] else take k xs # chunks k (drop k xs))"
  by pat_completeness auto
termination
  by (relation "measure (\<lambda>(k, xs). length xs)") auto

text \<open>
  A framework to run the scripts on: every object of the framework is one real number.
  A loader yields one batch with input 0 and ground truth 1, the model's output is 0,
  a loss is a weighted sum, and a metric function returns its threshold first.
  \<open>conf\<close> is what \<^verbatim>\<open>yaml.load\<close> reads.
\<close>

definition scalar_metric :: "real \<Rightarrow> real \<Rightarrow> real \<Rightarrow> int option \<Rightarrow> metrics" where
  "scalar_metric c p g t = (case t of None \<Rightarrow> c | Some k \<Rightarrow> real_of_int k, 2, 3, 4)"

definition scalar_framework :: "real cfg \<Rightarrow> real framework" where
  "scalar_framework conf =
     \<lparr>yaml_load = (\<lambda>_. conf),
      datasets_make = (\<lambda>_ _. 0),
      dataset_len = (\<lambda>_. 1),
      dataset_first = (\<lambda>_. [(''inp'', 0), (''gt'', 1), (''gt_name'', 0)]),
      shape = (\<lambda>_. [1]),
      DataLoader = (\<lambda>_ _ _ _. [\<lparr>inp = 0, gt = 1, gt_name = 0\<rparr>]),
      models_make = (\<lambda>_. 0),
      to_device = (\<lambda>x. x),
      torch_load = (\<lambda>_. 0),
      load_state_dict = (\<lambda>m _. m),
      state_dict = (\<lambda>m. m),
      prompt_generator_state_dict = (\<lambda>m. m),
      decode_head_state_dict = (\<lambda>m. m),
      model_eval = (\<lambda>m. m),
      model_train = (\<lambda>m. m),
      forward = (\<lambda>_ _ _ _. 0),
      gen_feat = (\<lambda>m _. m),
      query_rgb = (\<lambda>_ cs. sum_list cs),
      sigmoid = (\<lambda>x. 1 / (1 + exp (- x))),
      cat = (\<lambda>xs _. sum_list xs),
      calc_f1 = scalar_metric 1,
      calc_fmeasure = scalar_metric 2,
      calc_ber = scalar_metric 3,
      calc_cod = scalar_metric 4,
      cal_dice_iou = scalar_metric 5,
      parameters = (\<lambda>m. m),
      make_optimizer = (\<lambda>_ _. 0),
      CosineAnnealingLR = (\<lambda>_ _ _. 0),
      scheduler_step = (\<lambda>_ m. m),
      compute_num_params = (\<lambda>_. ''1''),
      attach_optimizer = (\<lambda>m _. m),
      optimizer_state_dict = (\<lambda>m. m),
      named_parameters = (\<lambda>_. [''image_encoder.w'', ''image_encoder.prompt_generator.w'']),
      requires_grad_False = (\<lambda>m _. m),
      total_params = (\<lambda>_. 2),
      grad_params = (\<lambda>_. 1),
      zero_grad = (\<lambda>m. m),
      backward = (\<lambda>m _. m),
      optimizer_step = (\<lambda>m. m + 1),
      BCEWithLogitsLoss = (\<lambda>pos_weight p g. (case pos_weight of None \<Rightarrow> 1 | Some r \<Rightarrow> r) * g + (1 - g)),
      torch_sum = (\<lambda>x. x),
      sum_dims = (\<lambda>x _. x),
      tensor_mean = (\<lambda>x. x),
      scalar = (\<lambda>r. r),
      t_add = (\<lambda>a b. a + b),
      t_sub = (\<lambda>a b. a - b),
      t_mul = (\<lambda>a b. a * b),
      t_div = (\<lambda>a b. a / b),
      tensor_item = (\<lambda>x. x)\<rparr>"

subsection \<open>What a run leaves in the journal\<close>

definition emits :: "'x event list \<Rightarrow> 'x world \<Rightarrow> 'x world" where
  "emits evs w = w\<lparr>journal := journal w @ evs\<rparr>"

text \<open>The prediction of one batch in eval_psnr, and the two tensors the metric function
  is applied to.\<close>

definition batch_pred :: "'x framework \<Rightarrow> 'x \<Rightarrow> 'x batch \<Rightarrow> 'x" where
  "batch_pred fw model b =
     sigmoid fw (forward fw model (to_device fw (inp b)) (to_device fw (gt b)) 1)"

definition cat_preds :: "'x framework \<Rightarrow> 'x \<Rightarrow> 'x batch list \<Rightarrow> 'x" where
  "cat_preds fw model bs = cat fw (map (batch_pred fw (model_eval fw model)) bs) 1"

definition cat_gts :: "'x framework \<Rightarrow> 'x batch list \<Rightarrow> 'x" where
  "cat_gts fw bs = cat fw (map (\<lambda>b. to_device fw (gt b)) bs) 1"

text \<open>The journal of eval_psnr up to the metric function, of the threshold loop of
  test.py, and of \<^verbatim>\<open>train\<close>, for a loader of \<open>n\<close> batches.\<close>

definition eval_events :: "nat \<Rightarrow> 'x event list" where
  "eval_events n = [Enter ''eval_psnr'', PbarOpen ''val'' n] @ replicate n PbarUpdate @ [PbarClose]"

definition threshold_line :: "'x metric_fn \<Rightarrow> 'x \<Rightarrow> 'x \<Rightarrow> int \<Rightarrow> 'x event" where
  "threshold_line metric_fn p g t =
     Print [S ''threshold: '', I t, S '': dice: '', F (fst (metric_fn p g (Some t)))]"

definition train_events :: "nat \<Rightarrow> 'x event list" where
  "train_events n =
     [Enter ''train'', PbarOpen ''train'' n] @ replicate n PbarUpdate @ [PbarClose, Leave ''train'']"

text \<open>Nested subscripts \<^verbatim>\<open>c[k1][k2]...\<close>.\<close>

fun getpath :: "'x cfg \<Rightarrow> string list \<Rightarrow> error + 'x cfg" where
  "getpath c [] = Inr c"
| "getpath c (k # ks) = (case getitem c k of Inl e \<Rightarrow> Inl e | Inr v \<Rightarrow> getpath v ks)"

text \<open>The condition under which a checkpoint holds the prompt generator and the decode
  head: the model's name is \<^verbatim>\<open>segformer\<close> or \<^verbatim>\<open>setr\<close> and the name of its encoder
  mode is \<^verbatim>\<open>evp\<close>. The file and the content of a checkpoint follow from it.\<close>

definition evp_config :: "'x cfg \<Rightarrow> bool" where
  "evp_config config \<longleftrightarrow>
     (getpath config [''model'', ''name''] = Inr (PStr ''segformer'')
      \<or> getpath config [''model'', ''name''] = Inr (PStr ''setr''))
     \<and> getpath config [''model'', ''args'', ''encoder_mode'', ''name''] = Inr (PStr ''evp'')"

definition checkpoint_path :: "'x cfg \<Rightarrow> string \<Rightarrow> string \<Rightarrow> string" where
  "checkpoint_path config path name =
     path_join path ((if evp_config config then ''prompt_epoch_'' else ''model_epoch_'') @ name @ ''.pth'')"

definition checkpoint_chunk :: "'x framework \<Rightarrow> 'x cfg \<Rightarrow> 'x \<Rightarrow> 'x chunk" where
  "checkpoint_chunk fw config model =
     (if evp_config config
      then Pickle (PDict [(''prompt'', PObj (prompt_generator_state_dict fw model)),
                          (''decode_head'', PObj (decode_head_state_dict fw model))])
      else Pickle (PObj (state_dict fw model)))"

text \<open>The loader and the model test.py builds, the journal of a run of test.py that
  reaches its end, and the row it appends.\<close>

definition test_loader :: "'x framework \<Rightarrow> 'x cfg \<Rightarrow> 'x cfg \<Rightarrow> 'x cfg \<Rightarrow> 'x batch list" where
  "test_loader fw dataset_spec wrapper_spec batch_size =
     DataLoader fw (datasets_make fw wrapper_spec (Some (datasets_make fw dataset_spec None)))
       batch_size False 8"






subsection \<open>The journal of an epoch\<close>

text \<open>Replaying events: a write and an append act on the files as well.\<close>

fun apply_event :: "'x event \<Rightarrow> 'x world \<Rightarrow> 'x world" where
  "apply_event (Write p c) w = write_file p c w"
| "apply_event (Append p c) w = append_file p c w"
| "apply_event e w = emit e w"

definition run_events :: "'x event list \<Rightarrow> 'x world \<Rightarrow> 'x world" where
  "run_events evs w = foldl (\<lambda>w e. apply_event e w) w evs"

fun file_op :: "'x event \<Rightarrow> bool" where
  "file_op (Write p c) = True"
| "file_op (Append p c) = True"
| "file_op e = False"

text \<open>Validation: whether the metric improved on \<^verbatim>\<open>max_val_v\<close>, the improved value, the
  line printed then, the log line of the epoch, and the journal of lines 280 to 305.\<close>

definition improves :: "'x cfg \<Rightarrow> metrics \<Rightarrow> real \<Rightarrow> bool" where
  "improves eval_type r max_v = (case r of (result1, result2, result3, result4) \<Rightarrow>
     if eval_type \<noteq> PStr ''ber'' then result1 > max_v else result3 < max_v)"

definition improved :: "'x cfg \<Rightarrow> metrics \<Rightarrow> real" where
  "improved eval_type r = (case r of (result1, result2, result3, result4) \<Rightarrow>
     if eval_type \<noteq> PStr ''ber'' then result1 else result3)"

definition best_line :: "'x cfg \<Rightarrow> metrics \<Rightarrow> real \<Rightarrow> 'x item list" where
  "best_line eval_type r max_v = (case r of (result1, result2, result3, result4) \<Rightarrow>
     if eval_type \<noteq> PStr ''ber'' then [S ''result1: '', F result1]
     else [S ''result3 : '', F result3, S '', max_v: '', F max_v])"

definition val_log :: "'x item list list \<Rightarrow> metric_names \<Rightarrow> metrics \<Rightarrow> 'x item list" where
  "val_log log_info names r =
     (case (names, r) of ((metric1, metric2, metric3, metric4), (result1, result2, result3, result4)) \<Rightarrow>
        join_items (log_info @
            [[S ''val: '', S metric1, S ''='', F4 result1],
             [S ''val: '', S metric2, S ''='', F4 result2],
             [S ''val: '', S metric3, S ''='', F4 result3],
             [S ''val: '', S metric4, S ''='', F4 result4]] @
            [[Clock, S '' '', Clock, S ''/'', Clock]]))"

definition validate_events ::
  "'x framework \<Rightarrow> string \<Rightarrow> 'x cfg \<Rightarrow> 'x \<Rightarrow> 'x cfg \<Rightarrow> 'x metric_fn \<Rightarrow> metric_names \<Rightarrow> real
     \<Rightarrow> 'x item list list \<Rightarrow> 'x batch list \<Rightarrow> 'x event list" where
  "validate_events fw path config model eval_type mf names max_v log_info bs =
     (let r = mf (cat_preds fw model bs) (cat_gts fw bs) None
      in eval_events (length bs) @ [Leave ''eval_psnr'']
         @ (if improves eval_type r max_v
            then [Print (best_line eval_type r max_v),
                  Write (checkpoint_path config path ''best'')
                    (checkpoint_chunk fw config (model_eval fw model))]
            else [])
         @ [Log (val_log log_info names r)])"

text \<open>An epoch is validated when \<^verbatim>\<open>epoch_val\<close> is not None and
  \<^verbatim>\<open>epoch % epoch_val == 0\<close> holds.\<close>

definition validates :: "'x cfg \<Rightarrow> int \<Rightarrow> bool" where
  "validates ev epoch \<longleftrightarrow> ev \<noteq> PNone \<and> mod_is_zero epoch ev = Inr True"

definition epoch_log_info :: "'x loop_env \<Rightarrow> int \<Rightarrow> real \<Rightarrow> 'x item list list" where
  "epoch_log_info env epoch loss =
     [[S ''epoch '', I epoch, S ''/'', V (epoch_max env)], [S ''train G: loss='', F4 loss]]"

text \<open>The journal of the three parts of an epoch.\<close>

definition train_epoch_events :: "int \<Rightarrow> nat \<Rightarrow> real \<Rightarrow> 'x event list" where
  "train_epoch_events epoch n loss =
     [Print [I epoch, S '' : '']] @ train_events n
     @ [Append ''./save/training_log.csv'' (Row [I epoch, F loss])]"

definition checkpoint_events ::
  "'x framework \<Rightarrow> string \<Rightarrow> 'x cfg \<Rightarrow> 'x \<Rightarrow> bool \<Rightarrow> 'x event list" where
  "checkpoint_events fw path config model smaller =
     [Write (checkpoint_path config path ''last'') (checkpoint_chunk fw config model)]
     @ (if smaller
        then [Write (checkpoint_path config path ''best_loss'') (checkpoint_chunk fw config model)]
        else [])"

definition epoch_events ::
  "'x framework \<Rightarrow> 'x loop_env \<Rightarrow> 'x loop_state \<Rightarrow> int \<Rightarrow> nat \<Rightarrow> real \<Rightarrow> 'x cfg \<Rightarrow> 'x
     \<Rightarrow> 'x event list \<Rightarrow> 'x event list" where
  "epoch_events fw env st epoch n loss config model va =
     train_epoch_events epoch n loss
     @ checkpoint_events fw (save_path env) config model (loss < best_loss st)
     @ va"

text \<open>The epochs a journal shows: each pass of the loop starts by printing
  \<^verbatim>\<open>{epoch} : \<close>.\<close>

fun epoch_of :: "'x event \<Rightarrow> int option" where
  "epoch_of (Print [I e, S s]) = (if s = '' : '' then Some e else None)"
| "epoch_of _ = None"

definition epochs_run :: "'x event list \<Rightarrow> int list" where
  "epochs_run evs = List.map_filter epoch_of evs"

text \<open>What a journal does to the file at path \<open>p\<close>.\<close>

fun replay1 :: "string \<Rightarrow> 'x event \<Rightarrow> 'x chunk list option \<Rightarrow> 'x chunk list option" where
  "replay1 p (Write q c) cs = (if q = p then Some [c] else cs)"
| "replay1 p (Append q c) cs =
     (if q = p then Some ((case cs of None \<Rightarrow> [] | Some x \<Rightarrow> x) @ [c]) else cs)"
| "replay1 p e cs = cs"

definition replay :: "string \<Rightarrow> 'x event list \<Rightarrow> 'x chunk list option \<Rightarrow> 'x chunk list option" where
  "replay p evs cs = foldl (\<lambda>cs e. replay1 p e cs) cs evs"

subsection \<open>Concrete inputs\<close>

text \<open>An empty world, and a config file with every key the two scripts read.\<close>

definition world0 :: "real world" where
  "world0 = \<lparr>files = Map.empty, journal = []\<rparr>"

definition demo_dataset :: "real cfg" where
  "demo_dataset = PDict [(''dataset'', PStr ''image-folder''), (''wrapper'', PStr ''train''),
                         (''batch_size'', PInt 1)]"

definition demo_items :: "(string \<times> real cfg) list" where
  "demo_items =
     [(''train_dataset'', demo_dataset), (''val_dataset'', demo_dataset),
      (''test_dataset'', demo_dataset),
      (''model'', PDict [(''name'', PStr ''setr''),
                         (''args'', PDict [(''loss'', PStr ''bce''),
                                           (''encoder_mode'', PDict [(''name'', PStr ''evp'')])])]),
      (''optimizer'', PDict [(''name'', PStr ''adamw'')]),
      (''epoch_max'', PInt 1), (''epoch_val'', PInt 1), (''lr_min'', PInt 0),
      (''eval_type'', PStr ''f1''), (''sam_checkpoint'', PStr ''sam.pth''),
      (''resume'', PInt 0)]"

definition demo_test_args :: test_args where
  "demo_test_args = \<lparr>arg_config = Some ''c.yaml'', arg_model = Some ''m.pth'', arg_prompt = ''none''\<rparr>"

definition demo_batch :: "real batch" where
  "demo_batch = \<lparr>inp = 0, gt = 1, gt_name = 0\<rparr>"

text \<open>The chunks a journal appends to the file at path \<open>p\<close>.\<close>

fun append_of :: "string \<Rightarrow> 'x event \<Rightarrow> 'x chunk option" where
  "append_of p (Append q c) = (if q = p then Some c else None)"
| "append_of p e = None"

definition appended :: "string \<Rightarrow> 'x event list \<Rightarrow> 'x chunk list" where
  "appended p evs = List.map_filter (append_of p) evs"


definition demo_env :: "real loop_env" where
  "demo_env = \<lparr>save_path = ''./save/run'', train_loader = Some [demo_batch],
               val_loader = Some [demo_batch], lr_scheduler = 0,
               epoch_max = PInt 1, epoch_val = PInt 1\<rparr>"

definition demo_state :: "real loop_state" where
  "demo_state = \<lparr>cur_config = PDict demo_items, cur_model = 0,
                 max_val_v = - (10 ^ 18), best_loss = 10 ^ 8\<rparr>"

subsection \<open>Statements and files\<close>

text \<open>A statement keeps the file at path \<open>p\<close>: whatever it does, and whether it returns
  or raises, the file holds afterwards what it held before (or is still missing). A
  statement lets the file grow: what the file held before is still the beginning of what
  it holds afterwards. A statement keeps the file when it raises.\<close>

definition keeps :: "string \<Rightarrow> ('a, 'x) stmt \<Rightarrow> bool" where
  "keeps p m \<longleftrightarrow> (\<forall>w. files (snd (m w)) p = files w p)"


definition fault_keeps :: "string \<Rightarrow> ('a, 'x) stmt \<Rightarrow> bool" where
  "fault_keeps p m \<longleftrightarrow> (\<forall>w. isl (fst (m w)) \<longrightarrow> files (snd (m w)) p = files w p)"


text \<open>A world in which both logs hold a row already.\<close>

definition world1 :: "real world" where
  "world1 = \<lparr>files = [''./save/training_log.csv'' \<mapsto> [Row [I 0, F 2]],
                       ''./save/test_log.csv'' \<mapsto> [Row [V (PInt 7), F 1, F 1, F 1, F 1]]],
             journal = []\<rparr>"

text \<open>The directory train.py saves to, from its command line.\<close>

definition train_save_path :: "train_args \<Rightarrow> string" where
  "train_save_path args =
     path_join ''./save''
       ((case targ_name args of None \<Rightarrow> ''_'' @ config_stem (targ_config args) | Some n \<Rightarrow> n)
        @ (case targ_tag args of None \<Rightarrow> [] | Some t \<Rightarrow> ''_'' @ t))"

definition demo_train_args :: train_args where
  "demo_train_args = \<lparr>targ_config = ''configs/demo.yaml'', targ_name = None, targ_tag = None\<rparr>"

section \<open>Properties\<close>

subsection \<open>Chunks\<close>

declare chunks.simps [simp del]

lemma concat_chunks: "0 < k \<Longrightarrow> concat (chunks k xs) = xs"
proof (induction k xs rule: chunks.induct)
  case (1 k xs)
  show ?case
  proof (cases "xs = []")
    case True
    then show ?thesis by (simp add: chunks.simps)
  next
    case False
    with 1 have "concat (chunks k (drop k xs)) = drop k xs" by simp
    with False 1 show ?thesis
      by (subst chunks.simps) simp
  qed
qed

lemma chunks_sizes: "0 < k \<Longrightarrow> c \<in> set (chunks k xs) \<Longrightarrow> 0 < length c \<and> length c \<le> k"
proof (induction k xs rule: chunks.induct)
  case (1 k xs)
  show ?case
  proof (cases "xs = []")
    case True
    with 1 show ?thesis by (simp add: chunks.simps)
  next
    case False
    from 1(3) False 1(2) have "c = take k xs \<or> c \<in> set (chunks k (drop k xs))"
      by (subst (asm) chunks.simps) simp
    then show ?thesis
    proof
      assume "c = take k xs"
      with False 1(2) show ?thesis by simp
    next
      assume "c \<in> set (chunks k (drop k xs))"
      with 1 False show ?thesis by simp
    qed
  qed
qed

subsection \<open>batched_predict\<close>

lemma py_slice_inner:
  assumes "0 \<le> ql" "ql < int (length xs)" "1 \<le> bsize"
  shows "py_slice xs ql (min (ql + bsize) (int (length xs))) = take (nat bsize) (drop (nat ql) xs)"
proof -
  let ?n = "int (length xs)"
  let ?qr = "min (ql + bsize) ?n"
  have lo: "clip_index ?n ql = nat ql" using assms by (simp add: clip_index_def)
  have hi: "clip_index ?n ?qr = nat ?qr" using assms by (simp add: clip_index_def)
  have "take (nat ?qr - nat ql) (drop (nat ql) xs) = take (nat bsize) (drop (nat ql) xs)"
  proof (cases "ql + bsize \<le> ?n")
    case True
    then have "nat ?qr - nat ql = nat bsize" using assms by (simp add: min_def)
    then show ?thesis by simp
  next
    case False
    then have "nat ?qr - nat ql = length (drop (nat ql) xs)" using assms by (simp add: min_def)
    moreover have "length (drop (nat ql) xs) \<le> nat bsize" using False assms by simp
    ultimately show ?thesis by simp
  qed
  then show ?thesis by (simp add: py_slice_def Let_def lo hi)
qed

lemma batched_loop_chunks:
  assumes "1 \<le> bsize" "0 \<le> ql" "ql \<le> int (length coord)"
  shows "batched_loop fw m coord bsize (int (length coord)) ql preds =
           Some (preds @ map (query_rgb fw m) (chunks (nat bsize) (drop (nat ql) coord)))"
  using assms
proof (induction "nat (int (length coord) - ql)" arbitrary: ql preds rule: less_induct)
  case less
  show ?case
  proof (cases "ql < int (length coord)")
    case False
    with less.prems have "drop (nat ql) coord = []" by simp
    with False show ?thesis
      by (subst batched_loop.simps) (simp add: chunks.simps)
  next
    case True
    let ?qr = "min (ql + bsize) (int (length coord))"
    have step: "nat (int (length coord) - ?qr) < nat (int (length coord) - ql)"
      using True less.prems by (simp add: min_def)
    have qr: "0 \<le> ?qr" "?qr \<le> int (length coord)" using less.prems by simp_all
    have IH: "batched_loop fw m coord bsize (int (length coord)) ?qr ps =
           Some (ps @ map (query_rgb fw m) (chunks (nat bsize) (drop (nat ?qr) coord)))" for ps
      using less.hyps [OF step less.prems(1) qr] .
    have dr: "drop (nat ?qr) coord = drop (nat bsize) (drop (nat ql) coord)"
    proof (cases "ql + bsize \<le> int (length coord)")
      case True
      then show ?thesis using less.prems by (simp add: min_def nat_add_distrib add.commute)
    next
      case False
      then show ?thesis using less.prems by (simp add: min_def)
    qed
    have ne: "drop (nat ql) coord \<noteq> []" using True less.prems by simp
    have ch: "chunks (nat bsize) (drop (nat ql) coord) =
                take (nat bsize) (drop (nat ql) coord) # chunks (nat bsize) (drop (nat ?qr) coord)"
      using ne less.prems(1) by (subst chunks.simps) (simp add: dr)
    show ?thesis
      using True
      by (subst batched_loop.simps)
         (simp add: Let_def IH py_slice_inner [OF less.prems(2) True less.prems(1)] ch)
  qed
qed

lemma chunks_Nil: "chunks k [] = []"
  by (simp add: chunks.simps)

lemma chunks_not_Nil: "0 < k \<Longrightarrow> xs \<noteq> [] \<Longrightarrow> chunks k xs \<noteq> []"
  by (subst chunks.simps) simp

text \<open>
  Claim C10, amended. For every \<open>bsize \<ge> 1\<close> and every coordinate list,
  \<^verbatim>\<open>batched_predict\<close> terminates: the loop ends. The slices it queries are the
  consecutive chunks of the coordinates, each of at least one and at most \<open>bsize\<close>
  coordinates; put one after the other they are the coordinate list again, so every
  coordinate is queried exactly once. For \<open>n \<ge> 1\<close> coordinates the function returns
  the framework's concatenation along dimension 1 of the predictions of the chunks, in
  order (and the list of them). For \<open>n = 0\<close> there is no chunk, \<^verbatim>\<open>torch.cat\<close> gets
  the empty list and raises: the function does not return a value.
\<close>

theorem batched_predict_chunks:
  assumes "1 \<le> bsize"
  shows "batched_predict fw model inp0 coord bsize =
           Some (if coord = [] then Inl RuntimeError
                 else Inr (cat fw (map (query_rgb fw (gen_feat fw model inp0)) (chunks (nat bsize) coord)) 1,
                           map (query_rgb fw (gen_feat fw model inp0)) (chunks (nat bsize) coord)))
         \<and> concat (chunks (nat bsize) coord) = coord
         \<and> (\<forall>c \<in> set (chunks (nat bsize) coord). 1 \<le> length c \<and> int (length c) \<le> bsize)"
proof -
  have k: "0 < nat bsize" using assms by simp
  have "batched_loop fw (gen_feat fw model inp0) coord bsize (int (length coord)) 0 [] =
          Some ([] @ map (query_rgb fw (gen_feat fw model inp0)) (chunks (nat bsize) (drop (nat 0) coord)))"
    using assms by (intro batched_loop_chunks) simp_all
  then have a: "batched_predict fw model inp0 coord bsize =
           Some (if coord = [] then Inl RuntimeError
                 else Inr (cat fw (map (query_rgb fw (gen_feat fw model inp0)) (chunks (nat bsize) coord)) 1,
                           map (query_rgb fw (gen_feat fw model inp0)) (chunks (nat bsize) coord)))"
    using chunks_not_Nil [OF k, of coord]
    by (simp add: batched_predict_def Let_def torch_cat_def chunks_Nil)
  have b: "concat (chunks (nat bsize) coord) = coord"
    using k by (rule concat_chunks)
  have c: "\<forall>c \<in> set (chunks (nat bsize) coord). 1 \<le> length c \<and> int (length c) \<le> bsize"
  proof
    fix c assume "c \<in> set (chunks (nat bsize) coord)"
    from chunks_sizes [OF k this] have "0 < length c" "length c \<le> nat bsize"
      by simp_all
    with assms show "1 \<le> length c \<and> int (length c) \<le> bsize"
      by linarith
  qed
  from a b c show ?thesis by blast
qed

theorem batched_predict_chunks_witness:
  "(1::int) \<le> 2
   \<and> batched_predict (scalar_framework PNone) 0 0 [1, 2, 3] 2 = Some (Inr (6, [3, 3]))
   \<and> chunks 2 [1, 2, 3 :: real] = [[1, 2], [3]]
   \<and> batched_predict (scalar_framework PNone) 0 0 [7] 1 = Some (Inr (7, [7]))
   \<and> batched_predict (scalar_framework PNone) 0 0 [1, 2] 5 = Some (Inr (3, [3]))
   \<and> batched_predict (scalar_framework PNone) 0 0 [1, 2, 3, 4] 2 = Some (Inr (10, [3, 7]))
   \<and> batched_predict (scalar_framework PNone) 0 0 [] 2 = Some (Inl RuntimeError)"
proof -
  let ?fw = "scalar_framework PNone"
  have ch: "chunks 2 [1, 2, 3 :: real] = [[1, 2], [3]]" "chunks (Suc 0) [7 :: real] = [[7]]"
    "chunks 5 [1, 2 :: real] = [[1, 2]]" "chunks 2 [1, 2, 3, 4 :: real] = [[1, 2], [3, 4]]"
    by (simp_all add: chunks.simps)
  have n: "nat 2 = 2" "nat 1 = 1" "nat 5 = 5"
    by simp_all
  have a: "batched_predict ?fw 0 0 [1, 2, 3] 2 = Some (Inr (6, [3, 3]))"
    using batched_predict_chunks [of 2 ?fw 0 0 "[1, 2, 3]"]
    by (simp add: n ch) (simp add: scalar_framework_def)
  have b: "batched_predict ?fw 0 0 [7] 1 = Some (Inr (7, [7]))"
    using batched_predict_chunks [of 1 ?fw 0 0 "[7]"]
    by (simp add: n ch) (simp add: scalar_framework_def)
  have c: "batched_predict ?fw 0 0 [1, 2] 5 = Some (Inr (3, [3]))"
    using batched_predict_chunks [of 5 ?fw 0 0 "[1, 2]"]
    by (simp add: n ch) (simp add: scalar_framework_def)
  have d: "batched_predict ?fw 0 0 [1, 2, 3, 4] 2 = Some (Inr (10, [3, 7]))"
    using batched_predict_chunks [of 2 ?fw 0 0 "[1, 2, 3, 4]"]
    by (simp add: n ch) (simp add: scalar_framework_def)
  have e: "batched_predict ?fw 0 0 [] 2 = Some (Inl RuntimeError)"
    using batched_predict_chunks [of 2 ?fw 0 0 "[]"]
    by simp
  from ch a b c d e show ?thesis by simp
qed

text \<open>The claim as it was stated fails for \<open>n = 0\<close>: with no coordinate the function
  raises instead of returning the concatenation of no prediction.\<close>

theorem batched_predict_no_coordinate_raises:
  "batched_predict (scalar_framework PNone) 0 0 [] 2 = Some (Inl RuntimeError)
   \<and> batched_predict (scalar_framework PNone) 0 0 [] 2
       \<noteq> Some (Inr (cat (scalar_framework PNone) [] 1, []))"
proof -
  have "batched_loop (scalar_framework PNone) 0 [] 2 0 0 [] = Some ([] :: real list)"
    by (subst batched_loop.simps) simp
  then show ?thesis
    by (simp add: batched_predict_def Let_def torch_cat_def scalar_framework_def)
qed

subsection \<open>Statements\<close>

declare py_range.simps [simp del]

lemma bnd_ret: "bnd (ret a) f = f a"
  by (rule ext) (simp add: bnd_def ret_def)

lemma bnd_raise: "bnd (raise e) f = raise e"
  by (rule ext) (simp add: bnd_def raise_def)

lemma bnd_lift_Inr: "bnd (lift (Inr a)) f = f a"
  by (rule ext) (simp add: bnd_def lift_def)

lemma bnd_lift_Inl: "bnd (lift (Inl e)) f = raise e"
  by (rule ext) (simp add: bnd_def lift_def raise_def)

lemma bnd_eff: "bnd (eff g) f w = f () (g w)"
  by (simp add: bnd_def eff_def)

lemmas stmt_simps = bnd_ret bnd_raise bnd_lift_Inr bnd_lift_Inl bnd_eff

lemma bnd_Inr: "m w = (Inr a, w') \<Longrightarrow> bnd m f w = f a w'"
  by (simp add: bnd_def)

lemma bnd_Inl: "m w = (Inl e, w') \<Longrightarrow> bnd m f w = (Inl e, w')"
  by (simp add: bnd_def)

lemma bnd_assoc: "bnd (bnd m f) g = bnd m (\<lambda>a. bnd (f a) g)"
  by (rule ext) (simp add: bnd_def split: prod.splits sum.splits)

lemma emit_emits: "emit e w = emits [e] w"
  by (simp add: emit_def emits_def)

lemma emits_emits: "emits b (emits a w) = emits (a @ b) w"
  by (simp add: emits_def)

lemma emits_Nil: "emits [] w = w"
  by (simp add: emits_def)


lemma journal_emits: "journal (emits evs w) = journal w @ evs"
  by (simp add: emits_def)

lemma files_write_file: "files (write_file p c w) = (files w)(p \<mapsto> [c])"
  by (simp add: write_file_def emit_def)

lemma journal_write_file: "journal (write_file p c w) = journal w @ [Write p c]"
  by (simp add: write_file_def emit_def)


lemma journal_append_file: "journal (append_file p c w) = journal w @ [Append p c]"
  by (simp add: append_file_def emit_def)

lemma cfg_get_getitem: "getitem c k = Inr v \<Longrightarrow> cfg_get c k = Inr v"
  by (cases c) (auto split: option.splits)

lemma cfg_get_dict: "cfg_get (PDict kvs) k = Inr (case map_of kvs k of None \<Rightarrow> PNone | Some v \<Rightarrow> v)"
  by (simp split: option.splits)

lemma getitem_dict: "getitem c k = Inr v \<Longrightarrow> \<exists>kvs. c = PDict kvs"
  by (cases c) simp_all

text \<open>Running the scripts on concrete inputs.\<close>

lemmas run_simps = bnd_def ret_def eff_def raise_def lift_def
  Let_def scalar_framework_def demo_items_def demo_dataset_def
  demo_test_args_def demo_batch_def world0_def world1_def demo_env_def demo_state_def
  emit_def write_file_def append_file_def
  loader_batches_def read_local_def select_metric_def scalar_metric_def opt_str_def
  path_join_def mean_def torch_cat_def

subsection \<open>The loops of eval_psnr\<close>

lemma range_thresholds:
  "py_range 10 255 10 =
     [10, 20, 30, 40, 50, 60, 70, 80, 90, 100, 110, 120, 130, 140, 150, 160, 170, 180, 190,
      200, 210, 220, 230, 240, 250]"
  by (simp add: py_range.simps)

lemma eval_batches_run:
  "eval_batches fw model bs (ps, gs) w =
     (Inr (ps @ map (batch_pred fw model) bs, gs @ map (\<lambda>b. to_device fw (gt b)) bs),
      emits (replicate (length bs) PbarUpdate) w)"
proof (induction bs arbitrary: ps gs w)
  case Nil
  show ?case by (simp add: ret_def emits_Nil)
next
  case (Cons b bs)
  show ?case
    by (simp add: Let_def bnd_eff Cons.IH emit_emits emits_emits batch_pred_def
        replicate_app_Cons_same)
qed

lemma threshold_loop_run:
  "threshold_loop (Some (mf, names)) p g ts res w =
     (Inr (if ts = [] then res else Some (mf p g (Some (last ts)))),
      emits (map (threshold_line mf p g) ts) w)"
proof (induction ts arbitrary: res w)
  case Nil
  show ?case by (simp add: ret_def emits_Nil)
next
  case (Cons t ts)
  show ?case
    by (simp add: read_local_def bnd_ret bnd_eff Let_def Cons.IH emit_emits emits_emits
        threshold_line_def)
qed

lemma threshold_loop_unbound:
  "ts \<noteq> [] \<Longrightarrow> threshold_loop None p g ts res w = (Inl (UnboundLocalError ''metric_fn''), w)"
  by (cases ts) (simp_all add: read_local_def bnd_raise raise_def)

lemmas bnd_eval_batches = bnd_Inr [OF eval_batches_run]

lemmas bnd_threshold_loop = bnd_Inr [OF threshold_loop_run]

lemmas bnd_threshold_unbound = bnd_Inl [OF threshold_loop_unbound]

subsection \<open>eval_psnr\<close>

lemma test_eval_psnr_run:
  assumes "select_metric fw eval_type = Some (mf, names)" "bs \<noteq> []"
  shows "test_eval_psnr fw (Some bs) model dn eval_type eb v w =
           (Inr (mf (cat_preds fw model bs) (cat_gts fw bs) (Some 250), model_eval fw model),
            emits (eval_events (length bs)
                   @ map (threshold_line mf (cat_preds fw model bs) (cat_gts fw bs)) (py_range 10 255 10)
                   @ [Leave ''eval_psnr'']) w)"
proof -
  have l: "last (py_range 10 255 10) = 250" "py_range 10 255 10 \<noteq> []"
    by (simp_all add: range_thresholds)
  show ?thesis
    unfolding test_eval_psnr_def Let_def assms(1) loader_batches_def
    by (simp add: stmt_simps bnd_eval_batches bnd_threshold_loop l assms(2) torch_cat_def
        read_local_def emit_emits emits_emits cat_preds_def cat_gts_def eval_events_def ret_def)
qed

lemma test_eval_psnr_unbound:
  assumes "select_metric fw eval_type = None" "bs \<noteq> []"
  shows "test_eval_psnr fw (Some bs) model dn eval_type eb v w =
           (Inl (UnboundLocalError ''metric_fn''), emits (eval_events (length bs)) w)"
proof -
  have l: "py_range 10 255 10 \<noteq> []"
    by (simp add: range_thresholds)
  show ?thesis
    unfolding test_eval_psnr_def Let_def assms(1) loader_batches_def
    by (simp add: stmt_simps bnd_eval_batches bnd_threshold_unbound [OF l] assms(2) torch_cat_def
        read_local_def emit_emits emits_emits eval_events_def)
qed

lemma test_eval_psnr_empty:
  "test_eval_psnr fw (Some []) model dn eval_type eb v w = (Inl RuntimeError, emits (eval_events 0) w)"
  unfolding test_eval_psnr_def Let_def loader_batches_def
  by (simp add: stmt_simps torch_cat_def emit_emits emits_emits eval_events_def raise_def ret_def)

lemma eval_psnr_run:
  assumes "select_metric fw eval_type = Some (mf, names)" "bs \<noteq> []"
  shows "eval_psnr fw (Some bs) model eval_type w =
           (Inr ((mf (cat_preds fw model bs) (cat_gts fw bs) None, names), model_eval fw model),
            emits (eval_events (length bs) @ [Leave ''eval_psnr'']) w)"
  unfolding eval_psnr_def Let_def assms(1) loader_batches_def
  by (simp add: stmt_simps bnd_eval_batches assms(2) torch_cat_def
      read_local_def emit_emits emits_emits cat_preds_def cat_gts_def eval_events_def ret_def)

lemma eval_psnr_unbound:
  assumes "select_metric fw eval_type = None" "bs \<noteq> []"
  shows "eval_psnr fw (Some bs) model eval_type w =
           (Inl (UnboundLocalError ''metric_fn''), emits (eval_events (length bs)) w)"
  unfolding eval_psnr_def Let_def assms(1) loader_batches_def
  by (simp add: stmt_simps bnd_eval_batches assms(2) torch_cat_def
      read_local_def emit_emits emits_emits eval_events_def raise_def)

lemma eval_psnr_empty:
  "eval_psnr fw (Some []) model eval_type w = (Inl RuntimeError, emits (eval_events 0) w)"
  unfolding eval_psnr_def Let_def loader_batches_def
  by (simp add: stmt_simps torch_cat_def emit_emits emits_emits eval_events_def raise_def ret_def)

lemma eval_psnr_no_loader:
  "eval_psnr fw None model eval_type w = (Inl TypeError, emits [Enter ''eval_psnr''] w)"
  unfolding eval_psnr_def Let_def loader_batches_def
  by (simp add: stmt_simps emit_emits raise_def)

lemma select_metric_None:
  "eval_type \<notin> {PStr ''f1'', PStr ''fmeasure'', PStr ''ber'', PStr ''cod'', PStr ''dice''}
     \<Longrightarrow> select_metric fw eval_type = None"
  by (simp add: select_metric_def)

text \<open>
  Claim C9. On a loader that yields a batch, the eval_psnr of test.py applies the metric
  function at every threshold of \<^verbatim>\<open>range(10, 255, 10)\<close>, that is 10, 20, ..., 250 (one
  line is printed for each, in this order), and returns the four results of the last
  threshold, 250, alone: the value returned is the metric function at 250, whatever it
  returned at the thresholds before.
\<close>

theorem test_eval_psnr_returns_last_threshold:
  assumes "select_metric fw eval_type = Some (metric_fn, names)" and "bs \<noteq> []"
  shows "test_eval_psnr fw (Some bs) model data_norm eval_type eval_bsize verbose w =
           (Inr (metric_fn (cat_preds fw model bs) (cat_gts fw bs) (Some 250), model_eval fw model),
            emits (eval_events (length bs)
                   @ map (threshold_line metric_fn (cat_preds fw model bs) (cat_gts fw bs))
                       [10, 20, 30, 40, 50, 60, 70, 80, 90, 100, 110, 120, 130, 140, 150, 160, 170,
                        180, 190, 200, 210, 220, 230, 240, 250]
                   @ [Leave ''eval_psnr'']) w)"
  using test_eval_psnr_run [OF assms, of model data_norm eval_bsize verbose w]
  by (simp only: range_thresholds)

theorem test_eval_psnr_returns_last_threshold_witness:
  "select_metric (scalar_framework PNone) (PStr ''dice'')
     = Some (scalar_metric 5, ''dice'', ''iou'', ''none'', ''none'')
   \<and> [demo_batch] \<noteq> []
   \<and> fst (test_eval_psnr (scalar_framework PNone) (Some [demo_batch]) 0 PNone (PStr ''dice'') PNone True world0)
     = Inr ((250, 2, 3, 4), 0)
   \<and> journal (snd (test_eval_psnr (scalar_framework PNone) (Some [demo_batch]) 0 PNone (PStr ''dice'')
                     PNone True world0))
     = [Enter ''eval_psnr'', PbarOpen ''val'' 1, PbarUpdate, PbarClose]
       @ map (\<lambda>t. Print [S ''threshold: '', I t, S '': dice: '', F (real_of_int t)])
           [10, 20, 30, 40, 50, 60, 70, 80, 90, 100, 110, 120, 130, 140, 150, 160, 170,
            180, 190, 200, 210, 220, 230, 240, 250]
       @ [Leave ''eval_psnr'']
   \<and> scalar_metric 5 (1 / 2) 1 (Some 10) = (10, 2, 3, 4)"
proof -
  let ?fw = "scalar_framework PNone"
  have sel: "select_metric ?fw (PStr ''dice'') = Some (scalar_metric 5, ''dice'', ''iou'', ''none'', ''none'')"
    by (simp add: select_metric_def scalar_framework_def)
  have ne: "[demo_batch] \<noteq> []"
    by simp
  note run = test_eval_psnr_returns_last_threshold [OF sel ne, of 0 PNone PNone True world0]
  have a: "fst (test_eval_psnr ?fw (Some [demo_batch]) 0 PNone (PStr ''dice'') PNone True world0)
          = Inr ((250, 2, 3, 4), 0)"
    by (simp only: run fst_conv) (simp add: scalar_metric_def scalar_framework_def)
  have b: "journal (snd (test_eval_psnr ?fw (Some [demo_batch]) 0 PNone (PStr ''dice'') PNone True world0))
     = [Enter ''eval_psnr'', PbarOpen ''val'' 1, PbarUpdate, PbarClose]
       @ map (\<lambda>t. Print [S ''threshold: '', I t, S '': dice: '', F (real_of_int t)])
           [10, 20, 30, 40, 50, 60, 70, 80, 90, 100, 110, 120, 130, 140, 150, 160, 170,
            180, 190, 200, 210, 220, 230, 240, 250]
       @ [Leave ''eval_psnr'']"
    by (simp only: run snd_conv)
       (simp add: journal_emits world0_def eval_events_def threshold_line_def scalar_metric_def)
  from sel ne a b show ?thesis
    by (simp add: scalar_metric_def)
qed

subsection \<open>Statements that keep a file\<close>


























subsection \<open>Statements that let a file grow\<close>





lemma fault_keeps_keeps: "keeps p m \<Longrightarrow> fault_keeps p m"
  by (simp add: keeps_def fault_keeps_def)



lemma fault_keeps_prod: "(\<And>a b. fault_keeps p (f a b)) \<Longrightarrow> fault_keeps p (case x of (a, b) \<Rightarrow> f a b)"
  by (cases x) simp

subsection \<open>The claim about save\<close>

lemma path_join_relative:
  "path_join a (CHR ''p'' # b) = (if a = [] \<or> last a = CHR ''/'' then a else a @ ''/'') @ CHR ''p'' # b"
  "path_join a (CHR ''m'' # b) = (if a = [] \<or> last a = CHR ''/'' then a else a @ ''/'') @ CHR ''m'' # b"
  by (simp_all add: path_join_def)

lemma save_run:
  assumes "getpath config [''model'', ''name''] = Inr model_name"
    and "model_name = PStr ''segformer'' \<or> model_name = PStr ''setr''
           \<longrightarrow> getpath config [''model'', ''args'', ''encoder_mode'', ''name''] = Inr encoder_name"
  shows "save fw config model path name w =
           (Inr (), write_file (checkpoint_path config path name) (checkpoint_chunk fw config model) w)"
  using assms
  unfolding save_def checkpoint_path_def checkpoint_chunk_def evp_config_def
  by (auto simp: bnd_def lift_def eff_def Let_def split: sum.splits if_splits)

lemma save_Inl:
  assumes "save fw config model path name w = (Inl e, w')"
  shows "w' = w"
  using assms
  unfolding save_def
  by (auto simp: bnd_def lift_def eff_def Let_def split: sum.splits if_splits)

lemma save_Inr:
  assumes "save fw config model path name w = (Inr u, w')"
  shows "\<exists>model_name. getpath config [''model'', ''name''] = Inr model_name
           \<and> (model_name = PStr ''segformer'' \<or> model_name = PStr ''setr''
                \<longrightarrow> (\<exists>encoder_name.
                       getpath config [''model'', ''args'', ''encoder_mode'', ''name''] = Inr encoder_name))"
  using assms
  unfolding save_def
  by (auto simp: bnd_def lift_def eff_def Let_def split: sum.splits if_splits)

text \<open>
  Claim C3, amended. A call of \<^verbatim>\<open>save(config, model, save_path, name)\<close> whose config
  holds \<^verbatim>\<open>config['model']['name']\<close> and, when that name is \<^verbatim>\<open>segformer\<close> or
  \<^verbatim>\<open>setr\<close>, \<^verbatim>\<open>config['model']['args']['encoder_mode']['name']\<close> as well, returns
  and writes exactly one file, under \<open>save_path\<close>, and changes no other file. The file is
  \<^verbatim>\<open>prompt_epoch_<name>.pth\<close>, holding the state of the prompt generator and of the decode
  head, if and only if the model's name is \<^verbatim>\<open>segformer\<close> or \<^verbatim>\<open>setr\<close> and the name of
  its encoder mode is \<^verbatim>\<open>evp\<close>; otherwise it is \<^verbatim>\<open>model_epoch_<name>.pth\<close>, holding the
  state dictionary of the whole model. A call that raises writes nothing, and only a
  call whose config holds these keys returns.
\<close>

theorem save_writes_one_checkpoint:
  "(getpath config [''model'', ''name''] = Inr model_name
      \<and> (model_name = PStr ''segformer'' \<or> model_name = PStr ''setr''
           \<longrightarrow> getpath config [''model'', ''args'', ''encoder_mode'', ''name''] = Inr encoder_name)
    \<longrightarrow> save fw config model path name w
          = (Inr (), write_file (checkpoint_path config path name) (checkpoint_chunk fw config model) w)
        \<and> files (snd (save fw config model path name w))
            = (files w)(checkpoint_path config path name \<mapsto> [checkpoint_chunk fw config model])
        \<and> journal (snd (save fw config model path name w))
            = journal w @ [Write (checkpoint_path config path name) (checkpoint_chunk fw config model)])
   \<and> prefix path (checkpoint_path config path name)
   \<and> (evp_config config \<longrightarrow>
         checkpoint_path config path name = path_join path (''prompt_epoch_'' @ name @ ''.pth'')
       \<and> checkpoint_chunk fw config model
           = Pickle (PDict [(''prompt'', PObj (prompt_generator_state_dict fw model)),
                            (''decode_head'', PObj (decode_head_state_dict fw model))]))
   \<and> (\<not> evp_config config \<longrightarrow>
         checkpoint_path config path name = path_join path (''model_epoch_'' @ name @ ''.pth'')
       \<and> checkpoint_chunk fw config model = Pickle (PObj (state_dict fw model)))
   \<and> path_join path (''prompt_epoch_'' @ name @ ''.pth'') \<noteq> path_join path (''model_epoch_'' @ name @ ''.pth'')
   \<and> (isl (fst (save fw config model path name w)) \<longrightarrow> snd (save fw config model path name w) = w)
   \<and> (\<not> isl (fst (save fw config model path name w)) \<longrightarrow>
         (\<exists>n. getpath config [''model'', ''name''] = Inr n
            \<and> (n = PStr ''segformer'' \<or> n = PStr ''setr''
                 \<longrightarrow> (\<exists>e. getpath config [''model'', ''args'', ''encoder_mode'', ''name''] = Inr e))))"
proof -
  have run: "save fw config model path name w
          = (Inr (), write_file (checkpoint_path config path name) (checkpoint_chunk fw config model) w)
        \<and> files (snd (save fw config model path name w))
            = (files w)(checkpoint_path config path name \<mapsto> [checkpoint_chunk fw config model])
        \<and> journal (snd (save fw config model path name w))
            = journal w @ [Write (checkpoint_path config path name) (checkpoint_chunk fw config model)]"
    if "getpath config [''model'', ''name''] = Inr model_name"
      and "model_name = PStr ''segformer'' \<or> model_name = PStr ''setr''
           \<longrightarrow> getpath config [''model'', ''args'', ''encoder_mode'', ''name''] = Inr encoder_name"
    using save_run [OF that, of fw model path name w]
    by (simp add: files_write_file journal_write_file)
  have under: "prefix path (checkpoint_path config path name)"
    by (simp add: checkpoint_path_def path_join_relative)
  have name: "(evp_config config \<longrightarrow>
         checkpoint_path config path name = path_join path (''prompt_epoch_'' @ name @ ''.pth'')
       \<and> checkpoint_chunk fw config model
           = Pickle (PDict [(''prompt'', PObj (prompt_generator_state_dict fw model)),
                            (''decode_head'', PObj (decode_head_state_dict fw model))]))
   \<and> (\<not> evp_config config \<longrightarrow>
         checkpoint_path config path name = path_join path (''model_epoch_'' @ name @ ''.pth'')
       \<and> checkpoint_chunk fw config model = Pickle (PObj (state_dict fw model)))"
    by (simp add: checkpoint_path_def checkpoint_chunk_def)
  have differ: "path_join path (''prompt_epoch_'' @ name @ ''.pth'')
                  \<noteq> path_join path (''model_epoch_'' @ name @ ''.pth'')"
    by (simp add: path_join_relative)
  have fault: "snd (save fw config model path name w) = w"
    if "isl (fst (save fw config model path name w))"
  proof -
    obtain r w' where s: "save fw config model path name w = (r, w')"
      by (cases "save fw config model path name w")
    with that obtain e where "r = Inl e"
      by (cases r) simp_all
    with s have "save fw config model path name w = (Inl e, w')"
      by simp
    with save_Inl [OF this] show ?thesis by simp
  qed
  have only: "\<exists>n. getpath config [''model'', ''name''] = Inr n
            \<and> (n = PStr ''segformer'' \<or> n = PStr ''setr''
                 \<longrightarrow> (\<exists>e. getpath config [''model'', ''args'', ''encoder_mode'', ''name''] = Inr e))"
    if "\<not> isl (fst (save fw config model path name w))"
  proof -
    obtain r w' where s: "save fw config model path name w = (r, w')"
      by (cases "save fw config model path name w")
    with that obtain u where "r = Inr u"
      by (cases r) simp_all
    with s have "save fw config model path name w = (Inr u, w')"
      by simp
    from save_Inr [OF this] show ?thesis .
  qed
  from run under name differ fault only show ?thesis
    by blast
qed

theorem save_writes_one_checkpoint_witness:
  "save (scalar_framework PNone) (PDict demo_items) 5 ''./save/run'' ''last'' world1
     = (Inr (), write_file ''./save/run/prompt_epoch_last.pth''
                  (Pickle (PDict [(''prompt'', PObj 5), (''decode_head'', PObj 5)])) world1)
   \<and> evp_config (PDict demo_items :: real cfg)
   \<and> files (snd (save (scalar_framework PNone) (PDict demo_items) 5 ''./save/run'' ''last'' world1))
       = (files world1)(''./save/run/prompt_epoch_last.pth''
            \<mapsto> [Pickle (PDict [(''prompt'', PObj 5), (''decode_head'', PObj 5)])])
   \<and> \<not> evp_config (PDict [(''model'', PDict [(''name'', PStr ''setr''),
            (''args'', PDict [(''encoder_mode'', PDict [(''name'', PStr ''adapter'')])])])] :: real cfg)
   \<and> save (scalar_framework PNone)
         (PDict [(''model'', PDict [(''name'', PStr ''setr''),
            (''args'', PDict [(''encoder_mode'', PDict [(''name'', PStr ''adapter'')])])])])
         5 ''./save/run'' ''best'' world1
     = (Inr (), write_file ''./save/run/model_epoch_best.pth'' (Pickle (PObj 5)) world1)
   \<and> \<not> evp_config (PDict [(''model'', PDict [(''name'', PStr ''sam'')])] :: real cfg)
   \<and> save (scalar_framework PNone) (PDict [(''model'', PDict [(''name'', PStr ''sam'')])])
         5 ''./save/'' ''best_loss'' world1
     = (Inr (), write_file ''./save/model_epoch_best_loss.pth'' (Pickle (PObj 5)) world1)
   \<and> files (write_file ''./save/model_epoch_best_loss.pth'' (Pickle (PObj 5)) world1)
       = (files world1)(''./save/model_epoch_best_loss.pth'' \<mapsto> [Pickle (PObj 5)])"
proof -
  let ?fw = "scalar_framework PNone"
  let ?B = "PDict [(''model'', PDict [(''name'', PStr ''setr''),
            (''args'', PDict [(''encoder_mode'', PDict [(''name'', PStr ''adapter'')])])])] :: real cfg"
  let ?C = "PDict [(''model'', PDict [(''name'', PStr ''sam'')])] :: real cfg"
  have evp: "evp_config (PDict demo_items :: real cfg)" "\<not> evp_config ?B" "\<not> evp_config ?C"
    by (simp_all add: evp_config_def demo_items_def)
  have fw: "prompt_generator_state_dict ?fw 5 = 5" "decode_head_state_dict ?fw 5 = 5"
    "state_dict ?fw 5 = 5"
    by (simp_all add: scalar_framework_def)
  have paths:
    "path_join ''./save/run'' (''prompt_epoch_'' @ ''last'' @ ''.pth'') = ''./save/run/prompt_epoch_last.pth''"
    "path_join ''./save/run'' (''model_epoch_'' @ ''best'' @ ''.pth'') = ''./save/run/model_epoch_best.pth''"
    "path_join ''./save/'' (''model_epoch_'' @ ''best_loss'' @ ''.pth'') = ''./save/model_epoch_best_loss.pth''"
    by (simp_all add: path_join_def)
  have kA: "getpath (PDict demo_items :: real cfg) [''model'', ''name''] = Inr (PStr ''setr'')"
    "getpath (PDict demo_items :: real cfg) [''model'', ''args'', ''encoder_mode'', ''name'']
       = Inr (PStr ''evp'')"
    by (simp_all add: demo_items_def)
  have kB: "getpath ?B [''model'', ''name''] = Inr (PStr ''setr'')"
    "getpath ?B [''model'', ''args'', ''encoder_mode'', ''name''] = Inr (PStr ''adapter'')"
    by simp_all
  have kC: "getpath ?C [''model'', ''name''] = Inr (PStr ''sam'')"
    "(PStr ''sam'' :: real cfg) \<noteq> PStr ''segformer''" "(PStr ''sam'' :: real cfg) \<noteq> PStr ''setr''"
    by simp_all
  note A = save_writes_one_checkpoint [where config = "PDict demo_items" and model_name = "PStr ''setr''"
      and encoder_name = "PStr ''evp''" and fw = ?fw and model = 5 and path = "''./save/run''"
      and name = "''last''" and w = world1]
  note B = save_writes_one_checkpoint [where config = ?B and model_name = "PStr ''setr''"
      and encoder_name = "PStr ''adapter''" and fw = ?fw and model = 5 and path = "''./save/run''"
      and name = "''best''" and w = world1]
  note C = save_writes_one_checkpoint [where config = ?C and model_name = "PStr ''sam''"
      and encoder_name = PNone and fw = ?fw and model = 5 and path = "''./save/''"
      and name = "''best_loss''" and w = world1]
  from A kA evp(1) have a:
    "save ?fw (PDict demo_items) 5 ''./save/run'' ''last'' world1
       = (Inr (), write_file (path_join ''./save/run'' (''prompt_epoch_'' @ ''last'' @ ''.pth''))
                    (Pickle (PDict [(''prompt'', PObj (prompt_generator_state_dict ?fw 5)),
                                    (''decode_head'', PObj (decode_head_state_dict ?fw 5))])) world1)"
    by metis
  from B kB evp(2) have b:
    "save ?fw ?B 5 ''./save/run'' ''best'' world1
       = (Inr (), write_file (path_join ''./save/run'' (''model_epoch_'' @ ''best'' @ ''.pth''))
                    (Pickle (PObj (state_dict ?fw 5))) world1)"
    by metis
  from C kC evp(3) have c:
    "save ?fw ?C 5 ''./save/'' ''best_loss'' world1
       = (Inr (), write_file (path_join ''./save/'' (''model_epoch_'' @ ''best_loss'' @ ''.pth''))
                    (Pickle (PObj (state_dict ?fw 5))) world1)"
    by metis
  show ?thesis
    using evp
    by (simp only: a b c fw paths snd_conv files_write_file simp_thms)
qed

text \<open>The claim as it was stated fails for a config of the model \<^verbatim>\<open>setr\<close> without
  \<^verbatim>\<open>encoder_mode\<close>: the call raises KeyError and no file is written.\<close>

theorem save_without_encoder_mode_writes_nothing:
  "save (scalar_framework PNone)
     (PDict [(''model'', PDict [(''name'', PStr ''setr''), (''args'', PDict [(''loss'', PStr ''bce'')])])])
     5 ''./save/run'' ''last'' world0
     = (Inl (KeyError ''encoder_mode''), world0)
   \<and> files world0 = Map.empty"
  by (simp add: save_def run_simps)

subsection \<open>train\<close>

lemma batch_loss_bound:
  "select_criterion lm = Some c \<Longrightarrow> \<exists>l. batch_loss fw lm pred gt0 = Inr l"
  by (simp add: batch_loss_def Let_def)

lemma train_batches_run:
  assumes "select_criterion lm = Some c"
  shows "\<exists>m' ls'. train_batches fw lm bs m ls w
                    = (Inr (m', ls @ ls'), emits (replicate (length bs) PbarUpdate) w)
                  \<and> length ls' = length bs"
proof (induction bs arbitrary: m ls w)
  case Nil
  show ?case by (simp add: ret_def emits_Nil)
next
  case (Cons b bs)
  obtain l where l: "batch_loss fw lm (forward fw (zero_grad fw m) (to_device fw (inp b)) (to_device fw (gt b)) 40)
                       (to_device fw (gt b)) = Inr l"
    using batch_loss_bound [OF assms] by blast
  from Cons.IH [of "optimizer_step fw (backward fw (zero_grad fw m) l)" "ls @ [l]" "emits [PbarUpdate] w"]
  obtain m' ls' where
    "train_batches fw lm bs (optimizer_step fw (backward fw (zero_grad fw m) l)) (ls @ [l]) (emits [PbarUpdate] w)
       = (Inr (m', (ls @ [l]) @ ls'), emits (replicate (length bs) PbarUpdate) (emits [PbarUpdate] w))"
    "length ls' = length bs"
    by blast
  then show ?case
    by (intro exI [of _ m'] exI [of _ "l # ls'"])
       (simp add: Let_def stmt_simps l emit_emits emits_emits)
qed

lemma train_batches_unbound:
  assumes "select_criterion lm = None" "bs \<noteq> []"
  shows "train_batches fw lm bs m ls w = (Inl (UnboundLocalError ''criterionBCE''), w)"
proof -
  from assms(2) obtain b bs' where bs: "bs = b # bs'" by (cases bs) auto
  show ?thesis
    unfolding bs by (simp add: Let_def batch_loss_def assms(1) stmt_simps raise_def)
qed

lemma train_run:
  assumes "select_criterion lm = Some c" "bs \<noteq> []"
  shows "\<exists>loss m'. train fw (Some bs) model lm w
                     = (Inr (loss, m'), emits (train_events (length bs)) w)"
proof -
  let ?w1 = "emits [Enter ''train'', PbarOpen ''train'' (length bs)] w"
  from train_batches_run [OF assms(1), of fw bs "model_train fw model" "[]" ?w1]
  obtain m' ls' where
    tb: "train_batches fw lm bs (model_train fw model) [] ?w1
           = (Inr (m', ls'), emits (replicate (length bs) PbarUpdate) ?w1)"
    and len: "length ls' = length bs"
    by auto
  from len assms(2) have ne: "ls' \<noteq> []" by auto
  have "train fw (Some bs) model lm w
          = (Inr (sum_list (map (tensor_item fw) ls') / real (length ls'), m'),
             emits (train_events (length bs)) w)"
    by (simp add: train_def Let_def stmt_simps loader_batches_def emit_emits emits_emits
          bnd_Inr [of "train_batches fw lm bs (model_train fw model) []" ?w1, OF tb]
          mean_def ne train_events_def ret_def)
  then show ?thesis by blast
qed

lemma train_no_loader: "fst (train fw None model lm w) = Inl TypeError"
  by (simp add: train_def Let_def stmt_simps loader_batches_def raise_def)

lemma train_no_batch: "fst (train fw (Some []) model lm w) = Inl StatisticsError"
  by (simp add: train_def Let_def stmt_simps loader_batches_def raise_def mean_def)

lemma train_unbound:
  assumes "select_criterion lm = None" "bs \<noteq> []"
  shows "fst (train fw (Some bs) model lm w) = Inl (UnboundLocalError ''criterionBCE'')"
proof -
  let ?w1 = "emits [Enter ''train'', PbarOpen ''train'' (length bs)] w"
  note tb = train_batches_unbound [OF assms, of fw "model_train fw model" "[]" ?w1]
  show ?thesis
    by (simp add: train_def Let_def stmt_simps loader_batches_def emit_emits emits_emits
          bnd_Inl [of "train_batches fw lm bs (model_train fw model) []" ?w1, OF tb])
qed

lemma train_returns_iff:
  "\<not> isl (fst (train fw loader model lm w))
     \<longleftrightarrow> (\<exists>bs. loader = Some bs \<and> bs \<noteq> [] \<and> select_criterion lm \<noteq> None)"
proof (cases loader)
  case None
  then show ?thesis by (simp add: train_no_loader)
next
  case (Some bs)
  show ?thesis
  proof (cases "bs = []")
    case True
    with Some show ?thesis by (simp add: train_no_batch)
  next
    case False
    show ?thesis
    proof (cases "select_criterion lm")
      case None
      with Some False show ?thesis by (simp add: train_unbound)
    next
      case (Some c)
      from train_run [OF Some False, of fw model w] \<open>loader = Some bs\<close> False Some
      show ?thesis by auto
    qed
  qed
qed

subsection \<open>The row of an epoch\<close>









subsection \<open>The training log only grows\<close>











subsection \<open>The log of test.py\<close>







subsection \<open>The claim about the CSV logs\<close>




subsection \<open>An unbound metric function\<close>

lemma test_eval_psnr_no_loader:
  "test_eval_psnr fw None model dn eval_type eb v w = (Inl TypeError, emits [Enter ''eval_psnr''] w)"
  unfolding test_eval_psnr_def Let_def loader_batches_def
  by (simp add: stmt_simps emit_emits raise_def)

lemma validate_unbound:
  assumes "val_loader env = Some bs" "bs \<noteq> []" "cfg_get config ''eval_type'' = Inr eval_type"
    "select_metric fw eval_type = None"
  shows "fst (validate fw env config model max_v log_info w) = Inl (UnboundLocalError ''metric_fn'')"
  using assms
  by (simp add: validate_def stmt_simps
        bnd_Inl [of "eval_psnr fw (Some bs) model eval_type" w, OF eval_psnr_unbound])

lemma validation_validates:
  "validates (epoch_val env) epoch \<Longrightarrow>
     validation fw env st epoch config model log_info = validate fw env config model (max_val_v st) log_info"
  by (simp add: validation_def validates_def stmt_simps)

lemma epoch_body_raises:
  assumes "train_epoch fw env st epoch w = (Inr (loss, model2, log_info), w1)"
    "checkpoints fw env st model2 loss w1 = (Inr (config2, bl), w2)"
    "fst (validation fw env st epoch config2 model2 log_info w2) = Inl e"
  shows "fst (epoch_body fw env st epoch w) = Inl e"
proof -
  from assms(3) obtain w3 where
    v: "validation fw env st epoch config2 model2 log_info w2 = (Inl e, w3)"
    by (cases "validation fw env st epoch config2 model2 log_info w2") simp
  show ?thesis
    by (simp add: epoch_body_def
          bnd_Inr [of "train_epoch fw env st epoch" w, OF assms(1)]
          bnd_Inr [of "checkpoints fw env st model2 loss" w1, OF assms(2)]
          bnd_Inl [of "validation fw env st epoch config2 model2 log_info" w2, OF v])
qed

lemma epoch_loop_append:
  "epoch_loop fw env (es1 @ es2) st = bnd (epoch_loop fw env es1 st) (\<lambda>st1. epoch_loop fw env es2 st1)"
proof (induction es1 arbitrary: st)
  case Nil
  show ?case by (simp add: bnd_ret)
next
  case (Cons e es1)
  have "epoch_loop fw env (es1 @ es2)
          = (\<lambda>st1. bnd (epoch_loop fw env es1 st1) (\<lambda>st2. epoch_loop fw env es2 st2))"
    by (rule ext) (rule Cons.IH)
  then show ?case
    by (simp add: bnd_assoc)
qed

lemma epoch_loop_raises:
  assumes "epoch_loop fw env es1 st0 w0 = (Inr st, w)"
    "fst (epoch_body fw env st epoch w) = Inl e"
  shows "fst (epoch_loop fw env (es1 @ epoch # es2) st0 w0) = Inl e"
proof -
  from assms(2) obtain w' where b: "epoch_body fw env st epoch w = (Inl e, w')"
    by (cases "epoch_body fw env st epoch w") simp
  show ?thesis
    by (simp add: epoch_loop_append bnd_Inr [of "epoch_loop fw env es1 st0" w0, OF assms(1)]
          bnd_Inl [of "epoch_body fw env st epoch" w, OF b])
qed

lemma main_raises:
  assumes "main_setup fw config path w = (Inr (env, st0, epoch_start), w0)"
    "py_succ (epoch_max env) = Inr stop" "range2 epoch_start stop = Inr epochs"
    "fst (epoch_loop fw env epochs st0 w0) = Inl e"
  shows "fst (main fw config path w) = Inl e"
  by (simp add: main_def bnd_Inr [of "main_setup fw config path" w, OF assms(1)]
        assms(2,3,4) stmt_simps)

lemma train_script_main:
  "train_script fw args w =
     main fw (yaml_load fw (Some (targ_config args))) (train_save_path args) (emit (Call ''yaml.load'') w)"
  by (simp add: train_script_def Let_def stmt_simps train_save_path_def split: option.splits)

lemma test_script_unbound:
  assumes "getitem (yaml_load fw (arg_config args)) ''test_dataset'' = Inr spec"
    "getitem spec ''dataset'' = Inr dataset_spec"
    "getitem spec ''wrapper'' = Inr wrapper_spec"
    "getitem spec ''batch_size'' = Inr batch_size"
    "getitem (yaml_load fw (arg_config args)) ''model'' = Inr model_spec"
    "cfg_get (yaml_load fw (arg_config args)) ''eval_type'' = Inr eval_type"
    "select_metric fw eval_type = None"
    "test_loader fw dataset_spec wrapper_spec batch_size \<noteq> []"
  shows "fst (test_script fw args w) = Inl (UnboundLocalError ''metric_fn'')"
proof -
  obtain kvs where kvs: "yaml_load fw (arg_config args) = PDict kvs"
    using getitem_dict [OF assms(1)] by blast
  have dn: "cfg_get (PDict kvs) ''data_norm'' = Inr (case map_of kvs ''data_norm'' of None \<Rightarrow> PNone | Some v \<Rightarrow> v)"
    and eb: "cfg_get (PDict kvs) ''eval_bsize'' = Inr (case map_of kvs ''eval_bsize'' of None \<Rightarrow> PNone | Some v \<Rightarrow> v)"
    by (rule cfg_get_dict)+
  have et: "cfg_get (PDict kvs) ''eval_type'' = Inr eval_type"
    using assms(6) kvs by simp
  have g1: "getitem (PDict kvs) ''test_dataset'' = Inr spec"
    and g2: "getitem (PDict kvs) ''model'' = Inr model_spec"
    using assms(1,5) kvs by simp_all
  note ev = test_eval_psnr_unbound [OF assms(7) assms(8), unfolded test_loader_def]
  show ?thesis
    unfolding test_script_def Let_def kvs
    by (simp only: stmt_simps g1 g2 assms(2,3,4) dn eb et bnd_Inl [OF ev] fst_conv)
qed

subsection \<open>The claim about the metric function\<close>

text \<open>
  Claim C1. In the eval_psnr of both scripts the string \<open>eval_type\<close> selects the metric
  function: \<^verbatim>\<open>f1\<close> selects \<^verbatim>\<open>utils.calc_f1\<close>, \<^verbatim>\<open>fmeasure\<close> selects
  \<^verbatim>\<open>utils.calc_fmeasure\<close>, \<^verbatim>\<open>ber\<close> selects \<^verbatim>\<open>utils.calc_ber\<close>, \<^verbatim>\<open>cod\<close> selects
  \<^verbatim>\<open>utils.calc_cod\<close> and \<^verbatim>\<open>dice\<close> selects \<^verbatim>\<open>utils.cal_dice_iou\<close>, and on a loader
  that yields a batch the selected function is the one applied. For every other value
  (None among them) nothing is bound to \<^verbatim>\<open>metric_fn\<close> and eval_psnr raises, whatever
  the loader: on a loader that yields a batch it raises UnboundLocalError for
  \<^verbatim>\<open>metric_fn\<close>, in train.py and in test.py alike. Nothing catches the fault. In
  train.py it is the result of \<^verbatim>\<open>validate\<close>, of the validation of the epoch, of the
  epoch, of the epoch loop (whichever epoch it is, the epochs before having returned), of
  \<^verbatim>\<open>main\<close> and of the script; in test.py it is the result of the script.
\<close>

theorem eval_type_selects_metric_fn:
  "select_metric fw (PStr ''f1'') = Some (calc_f1 fw, ''f1'', ''auc'', ''none'', ''none'')
   \<and> select_metric fw (PStr ''fmeasure'') = Some (calc_fmeasure fw, ''f_mea'', ''mae'', ''none'', ''none'')
   \<and> select_metric fw (PStr ''ber'') = Some (calc_ber fw, ''shadow'', ''non_shadow'', ''ber'', ''none'')
   \<and> select_metric fw (PStr ''cod'') = Some (calc_cod fw, ''sm'', ''em'', ''wfm'', ''mae'')
   \<and> select_metric fw (PStr ''dice'') = Some (cal_dice_iou fw, ''dice'', ''iou'', ''none'', ''none'')
   \<and> (select_metric fw eval_type = Some (metric_fn, names) \<and> bs \<noteq> [] \<longrightarrow>
          fst (eval_psnr fw (Some bs) model eval_type w)
            = Inr ((metric_fn (cat_preds fw model bs) (cat_gts fw bs) None, names), model_eval fw model)
        \<and> fst (test_eval_psnr fw (Some bs) model data_norm eval_type eval_bsize verbose w)
            = Inr (metric_fn (cat_preds fw model bs) (cat_gts fw bs) (Some 250), model_eval fw model))
   \<and> (eval_type \<notin> {PStr ''f1'', PStr ''fmeasure'', PStr ''ber'', PStr ''cod'', PStr ''dice''} \<longrightarrow>
          select_metric fw eval_type = None
        \<and> isl (fst (eval_psnr fw loader model eval_type w))
        \<and> isl (fst (test_eval_psnr fw loader model data_norm eval_type eval_bsize verbose w))
        \<and> (bs \<noteq> [] \<longrightarrow>
              fst (eval_psnr fw (Some bs) model eval_type w) = Inl (UnboundLocalError ''metric_fn'')
            \<and> fst (test_eval_psnr fw (Some bs) model data_norm eval_type eval_bsize verbose w)
                = Inl (UnboundLocalError ''metric_fn''))
        \<and> (val_loader env = Some bs \<and> bs \<noteq> [] \<and> cfg_get config ''eval_type'' = Inr eval_type \<longrightarrow>
              fst (validate fw env config model max_v log_info w) = Inl (UnboundLocalError ''metric_fn'')
            \<and> (validates (epoch_val env) epoch \<longrightarrow>
                  fst (validation fw env st epoch config model log_info w)
                    = Inl (UnboundLocalError ''metric_fn'')))
        \<and> (main_setup fw (yaml_load fw (Some (targ_config targs))) (train_save_path targs)
               (emit (Call ''yaml.load'') w) = (Inr (env, st0, epoch_start), w0)
            \<and> py_succ (epoch_max env) = Inr stop
            \<and> range2 epoch_start stop = Inr (es1 @ epoch # es2)
            \<and> epoch_loop fw env es1 st0 w0 = (Inr st, w1)
            \<and> train_epoch fw env st epoch w1 = (Inr (loss, model2, log_info), w2)
            \<and> checkpoints fw env st model2 loss w2 = (Inr (config, bl), w3)
            \<and> validates (epoch_val env) epoch
            \<and> val_loader env = Some bs \<and> bs \<noteq> [] \<and> cfg_get config ''eval_type'' = Inr eval_type \<longrightarrow>
              fst (epoch_body fw env st epoch w1) = Inl (UnboundLocalError ''metric_fn'')
            \<and> fst (epoch_loop fw env (es1 @ epoch # es2) st0 w0) = Inl (UnboundLocalError ''metric_fn'')
            \<and> fst (main fw (yaml_load fw (Some (targ_config targs))) (train_save_path targs)
                      (emit (Call ''yaml.load'') w)) = Inl (UnboundLocalError ''metric_fn'')
            \<and> fst (train_script fw targs w) = Inl (UnboundLocalError ''metric_fn''))
        \<and> (getitem (yaml_load fw (arg_config args)) ''test_dataset'' = Inr spec
            \<and> getitem spec ''dataset'' = Inr dataset_spec
            \<and> getitem spec ''wrapper'' = Inr wrapper_spec
            \<and> getitem spec ''batch_size'' = Inr batch_size
            \<and> getitem (yaml_load fw (arg_config args)) ''model'' = Inr model_spec
            \<and> cfg_get (yaml_load fw (arg_config args)) ''eval_type'' = Inr eval_type
            \<and> test_loader fw dataset_spec wrapper_spec batch_size \<noteq> [] \<longrightarrow>
              fst (test_script fw args w) = Inl (UnboundLocalError ''metric_fn'')))"
proof -
  let ?U = "Inl (UnboundLocalError ''metric_fn'')"
  have five:
    "select_metric fw (PStr ''f1'') = Some (calc_f1 fw, ''f1'', ''auc'', ''none'', ''none'')"
    "select_metric fw (PStr ''fmeasure'') = Some (calc_fmeasure fw, ''f_mea'', ''mae'', ''none'', ''none'')"
    "select_metric fw (PStr ''ber'') = Some (calc_ber fw, ''shadow'', ''non_shadow'', ''ber'', ''none'')"
    "select_metric fw (PStr ''cod'') = Some (calc_cod fw, ''sm'', ''em'', ''wfm'', ''mae'')"
    "select_metric fw (PStr ''dice'') = Some (cal_dice_iou fw, ''dice'', ''iou'', ''none'', ''none'')"
    by (simp_all add: select_metric_def)
  have bound: "select_metric fw eval_type = Some (metric_fn, names) \<and> bs \<noteq> [] \<longrightarrow>
          fst (eval_psnr fw (Some bs) model eval_type w)
            = Inr ((metric_fn (cat_preds fw model bs) (cat_gts fw bs) None, names), model_eval fw model)
        \<and> fst (test_eval_psnr fw (Some bs) model data_norm eval_type eval_bsize verbose w)
            = Inr (metric_fn (cat_preds fw model bs) (cat_gts fw bs) (Some 250), model_eval fw model)"
    by (simp add: eval_psnr_run test_eval_psnr_run)
  have unbound: "select_metric fw eval_type = None
        \<and> isl (fst (eval_psnr fw loader model eval_type w))
        \<and> isl (fst (test_eval_psnr fw loader model data_norm eval_type eval_bsize verbose w))
        \<and> (bs \<noteq> [] \<longrightarrow>
              fst (eval_psnr fw (Some bs) model eval_type w) = ?U
            \<and> fst (test_eval_psnr fw (Some bs) model data_norm eval_type eval_bsize verbose w) = ?U)
        \<and> (val_loader env = Some bs \<and> bs \<noteq> [] \<and> cfg_get config ''eval_type'' = Inr eval_type \<longrightarrow>
              fst (validate fw env config model max_v log_info w) = ?U
            \<and> (validates (epoch_val env) epoch \<longrightarrow>
                  fst (validation fw env st epoch config model log_info w) = ?U))
        \<and> (main_setup fw (yaml_load fw (Some (targ_config targs))) (train_save_path targs)
               (emit (Call ''yaml.load'') w) = (Inr (env, st0, epoch_start), w0)
            \<and> py_succ (epoch_max env) = Inr stop
            \<and> range2 epoch_start stop = Inr (es1 @ epoch # es2)
            \<and> epoch_loop fw env es1 st0 w0 = (Inr st, w1)
            \<and> train_epoch fw env st epoch w1 = (Inr (loss, model2, log_info), w2)
            \<and> checkpoints fw env st model2 loss w2 = (Inr (config, bl), w3)
            \<and> validates (epoch_val env) epoch
            \<and> val_loader env = Some bs \<and> bs \<noteq> [] \<and> cfg_get config ''eval_type'' = Inr eval_type \<longrightarrow>
              fst (epoch_body fw env st epoch w1) = ?U
            \<and> fst (epoch_loop fw env (es1 @ epoch # es2) st0 w0) = ?U
            \<and> fst (main fw (yaml_load fw (Some (targ_config targs))) (train_save_path targs)
                      (emit (Call ''yaml.load'') w)) = ?U
            \<and> fst (train_script fw targs w) = ?U)
        \<and> (getitem (yaml_load fw (arg_config args)) ''test_dataset'' = Inr spec
            \<and> getitem spec ''dataset'' = Inr dataset_spec
            \<and> getitem spec ''wrapper'' = Inr wrapper_spec
            \<and> getitem spec ''batch_size'' = Inr batch_size
            \<and> getitem (yaml_load fw (arg_config args)) ''model'' = Inr model_spec
            \<and> cfg_get (yaml_load fw (arg_config args)) ''eval_type'' = Inr eval_type
            \<and> test_loader fw dataset_spec wrapper_spec batch_size \<noteq> [] \<longrightarrow>
              fst (test_script fw args w) = ?U)"
    if out: "eval_type \<notin> {PStr ''f1'', PStr ''fmeasure'', PStr ''ber'', PStr ''cod'', PStr ''dice''}"
  proof -
    have none: "select_metric fw eval_type = None"
      using out by (rule select_metric_None)
    have any: "isl (fst (eval_psnr fw loader model eval_type w))"
    proof (cases loader)
      case None
      then show ?thesis by (simp add: eval_psnr_no_loader)
    next
      case (Some l)
      then show ?thesis
        by (cases "l = []") (simp_all add: eval_psnr_empty eval_psnr_unbound [OF none])
    qed
    have any': "isl (fst (test_eval_psnr fw loader model data_norm eval_type eval_bsize verbose w))"
    proof (cases loader)
      case None
      then show ?thesis by (simp add: test_eval_psnr_no_loader)
    next
      case (Some l)
      then show ?thesis
        by (cases "l = []") (simp_all add: test_eval_psnr_empty test_eval_psnr_unbound [OF none])
    qed
    have ev: "bs \<noteq> [] \<longrightarrow>
              fst (eval_psnr fw (Some bs) model eval_type w) = ?U
            \<and> fst (test_eval_psnr fw (Some bs) model data_norm eval_type eval_bsize verbose w) = ?U"
      by (simp add: eval_psnr_unbound [OF none] test_eval_psnr_unbound [OF none])
    have va: "fst (validate fw env c m mv li v) = ?U
            \<and> (validates (epoch_val env) epoch \<longrightarrow> fst (validation fw env s epoch c m li v) = ?U)"
      if "val_loader env = Some bs" "bs \<noteq> []" "cfg_get c ''eval_type'' = Inr eval_type"
      for c m mv li v s
      using validate_unbound [OF that none] by (simp add: validation_validates)
    have top: "fst (epoch_body fw env st epoch w1) = ?U
            \<and> fst (epoch_loop fw env (es1 @ epoch # es2) st0 w0) = ?U
            \<and> fst (main fw (yaml_load fw (Some (targ_config targs))) (train_save_path targs)
                      (emit (Call ''yaml.load'') w)) = ?U
            \<and> fst (train_script fw targs w) = ?U"
      if s: "main_setup fw (yaml_load fw (Some (targ_config targs))) (train_save_path targs)
               (emit (Call ''yaml.load'') w) = (Inr (env, st0, epoch_start), w0)"
        and stop: "py_succ (epoch_max env) = Inr stop"
        and range: "range2 epoch_start stop = Inr (es1 @ epoch # es2)"
        and before: "epoch_loop fw env es1 st0 w0 = (Inr st, w1)"
        and tr: "train_epoch fw env st epoch w1 = (Inr (loss, model2, log_info), w2)"
        and ck: "checkpoints fw env st model2 loss w2 = (Inr (config, bl), w3)"
        and v: "validates (epoch_val env) epoch"
        and l: "val_loader env = Some bs" "bs \<noteq> []" "cfg_get config ''eval_type'' = Inr eval_type"
    proof -
      from va [OF l] v have 1: "fst (validation fw env st epoch config model2 log_info w3) = ?U"
        by blast
      note 2 = epoch_body_raises [OF tr ck 1]
      note 3 = epoch_loop_raises [OF before 2, of es2]
      note 4 = main_raises [OF s stop range 3]
      from 2 3 4 show ?thesis
        by (simp add: train_script_main)
    qed
    have te: "fst (test_script fw args w) = ?U"
      if "getitem (yaml_load fw (arg_config args)) ''test_dataset'' = Inr spec"
        "getitem spec ''dataset'' = Inr dataset_spec"
        "getitem spec ''wrapper'' = Inr wrapper_spec"
        "getitem spec ''batch_size'' = Inr batch_size"
        "getitem (yaml_load fw (arg_config args)) ''model'' = Inr model_spec"
        "cfg_get (yaml_load fw (arg_config args)) ''eval_type'' = Inr eval_type"
        "test_loader fw dataset_spec wrapper_spec batch_size \<noteq> []"
      using test_script_unbound [OF that(1-6) none that(7)] .
    from none any any' ev va [of config model max_v log_info w st] top te show ?thesis
      by (intro conjI impI) (elim conjE, assumption | blast)+
  qed
  from five bound unbound show ?thesis
    by (intro conjI impI) (assumption | blast)+
qed

lemma freeze_scalar: "freeze_image_encoder (scalar_framework c) m = m"
  by (simp add: freeze_image_encoder_def scalar_framework_def)

theorem eval_type_selects_metric_fn_witness:
  "(PStr ''psnr'' :: real cfg) \<notin> {PStr ''f1'', PStr ''fmeasure'', PStr ''ber'', PStr ''cod'', PStr ''dice''}
   \<and> select_metric (scalar_framework (PDict (AList.update ''eval_type'' (PStr ''psnr'') demo_items)))
         (PStr ''cod'')
       = Some (scalar_metric 4, ''sm'', ''em'', ''wfm'', ''mae'')
   \<and> fst (eval_psnr (scalar_framework (PDict (AList.update ''eval_type'' (PStr ''psnr'') demo_items)))
            (Some [demo_batch]) 0 (PStr ''cod'') world0)
       = Inr (((4, 2, 3, 4), ''sm'', ''em'', ''wfm'', ''mae''), 0)
   \<and> fst (eval_psnr (scalar_framework (PDict (AList.update ''eval_type'' (PStr ''psnr'') demo_items)))
            (Some [demo_batch]) 0 (PStr ''psnr'') world0) = Inl (UnboundLocalError ''metric_fn'')
   \<and> fst (train_script (scalar_framework (PDict (AList.update ''eval_type'' (PStr ''psnr'') demo_items)))
            demo_train_args world0) = Inl (UnboundLocalError ''metric_fn'')
   \<and> fst (test_script (scalar_framework (PDict (AList.update ''eval_type'' (PStr ''psnr'') demo_items)))
            demo_test_args world0) = Inl (UnboundLocalError ''metric_fn'')"
proof -
  let ?conf = "PDict (AList.update ''eval_type'' (PStr ''psnr'') demo_items) :: real cfg"
  let ?fw = "scalar_framework ?conf"
  let ?model_spec = "PDict [(''name'', PStr ''setr''),
                     (''args'', PDict [(''loss'', PStr ''bce''),
                                       (''encoder_mode'', PDict [(''name'', PStr ''evp'')])])] :: real cfg"
  let ?env = "\<lparr>save_path = ''./save/_demo'', train_loader = Some [demo_batch],
               val_loader = Some [demo_batch], lr_scheduler = 0,
               epoch_max = PInt 1, epoch_val = PInt 1\<rparr> :: real loop_env"
  let ?st0 = "\<lparr>cur_config = PDict (AList.update ''data_norm'' default_data_norm
                                   (AList.update ''eval_type'' (PStr ''psnr'') demo_items)),
               cur_model = 0, max_val_v = - (10 ^ 18), best_loss = 10 ^ 8\<rparr> :: real loop_state"
  let ?li = "[[S ''epoch '', I 1, S ''/'', V (PInt 1)], [S ''train G: loss='', F4 1]] :: real item list list"
  have out: "(PStr ''psnr'' :: real cfg) \<notin> {PStr ''f1'', PStr ''fmeasure'', PStr ''ber'', PStr ''cod'', PStr ''dice''}"
    by simp
  have sel: "select_metric ?fw (PStr ''cod'') = Some (scalar_metric 4, ''sm'', ''em'', ''wfm'', ''mae'')"
    by (simp add: select_metric_def scalar_framework_def)
  have ne: "[demo_batch] \<noteq> []"
    by simp
  have path: "train_save_path demo_train_args = ''./save/_demo''"
    by (simp add: train_save_path_def demo_train_args_def config_stem_def path_join_def)
  have conf: "yaml_load ?fw (Some (targ_config demo_train_args)) = ?conf"
    by (simp add: scalar_framework_def)
  obtain w0 where su:
    "main_setup ?fw (yaml_load ?fw (Some (targ_config demo_train_args))) (train_save_path demo_train_args)
       (emit (Call ''yaml.load'') world0) = (Inr (?env, ?st0, PInt 1), w0)"
    unfolding path conf
    by (simp add: main_setup_def make_data_loaders_def make_data_loader_def prepare_training_def
          freeze_scalar [unfolded scalar_framework_def] default_data_norm_def run_simps)
  have stop: "py_succ (epoch_max ?env) = Inr (PInt 2)"
    by simp
  have range: "range2 (PInt 1) (PInt 2) = Inr ([] @ 1 # [])"
    by (simp add: range2_def py_range.simps)
  have before: "epoch_loop ?fw ?env [] ?st0 w0 = (Inr ?st0, w0)"
    by (simp add: ret_def)
  obtain w2 where tr: "train_epoch ?fw ?env ?st0 1 w0 = (Inr (1, 1, ?li), w2)"
    by (simp add: train_epoch_def train_def batch_loss_def select_criterion_def default_data_norm_def
          run_simps)
  obtain config2 w3 where ck: "checkpoints ?fw ?env ?st0 1 1 w2 = (Inr (config2, 1), w3)"
    and et: "cfg_get config2 ''eval_type'' = Inr (PStr ''psnr'')"
    by (simp add: checkpoints_def save_def default_data_norm_def run_simps)
  have v: "validates (epoch_val ?env) 1"
    by (simp add: validates_def)
  have l: "val_loader ?env = Some [demo_batch]"
    by simp
  have keys:
    "getitem (yaml_load ?fw (arg_config demo_test_args)) ''test_dataset'' = Inr demo_dataset"
    "getitem demo_dataset ''dataset'' = Inr (PStr ''image-folder'')"
    "getitem demo_dataset ''wrapper'' = Inr (PStr ''train'')"
    "getitem demo_dataset ''batch_size'' = Inr (PInt 1)"
    "getitem (yaml_load ?fw (arg_config demo_test_args)) ''model'' = Inr ?model_spec"
    "cfg_get (yaml_load ?fw (arg_config demo_test_args)) ''eval_type'' = Inr (PStr ''psnr'')"
    "test_loader ?fw (PStr ''image-folder'') (PStr ''train'') (PInt 1) \<noteq> []"
    by (simp_all add: scalar_framework_def demo_items_def demo_dataset_def test_loader_def)
  note inst = eval_type_selects_metric_fn
    [where fw = ?fw and bs = "[demo_batch]" and model = 0 and w = world0 and args = demo_test_args
       and spec = demo_dataset and dataset_spec = "PStr ''image-folder''"
       and wrapper_spec = "PStr ''train''" and batch_size = "PInt 1"
       and model_spec = ?model_spec and targs = demo_train_args
       and env = ?env and ?st0.0 = ?st0 and epoch_start = "PInt 1" and ?w0.0 = w0 and stop = "PInt 2"
       and ?es1.0 = "[]" and epoch = 1 and ?es2.0 = "[]" and st = ?st0 and ?w1.0 = w0
       and loss = 1 and ?model2.0 = 1 and log_info = ?li and ?w2.0 = w2 and config = config2
       and bl = 1 and ?w3.0 = w3]
  note U = inst [where eval_type = "PStr ''psnr''", THEN conjunct2, THEN conjunct2, THEN conjunct2,
      THEN conjunct2, THEN conjunct2, THEN conjunct2, THEN mp, OF out]
  note a = U [THEN conjunct2, THEN conjunct2, THEN conjunct2, THEN conjunct1, THEN mp, OF ne,
      THEN conjunct1]
  have chain:
    "main_setup ?fw (yaml_load ?fw (Some (targ_config demo_train_args))) (train_save_path demo_train_args)
       (emit (Call ''yaml.load'') world0) = (Inr (?env, ?st0, PInt 1), w0)
     \<and> py_succ (epoch_max ?env) = Inr (PInt 2)
     \<and> range2 (PInt 1) (PInt 2) = Inr ([] @ 1 # [])
     \<and> epoch_loop ?fw ?env [] ?st0 w0 = (Inr ?st0, w0)
     \<and> train_epoch ?fw ?env ?st0 1 w0 = (Inr (1, 1, ?li), w2)
     \<and> checkpoints ?fw ?env ?st0 1 1 w2 = (Inr (config2, 1), w3)
     \<and> validates (epoch_val ?env) 1
     \<and> val_loader ?env = Some [demo_batch] \<and> [demo_batch] \<noteq> []
     \<and> cfg_get config2 ''eval_type'' = Inr (PStr ''psnr'')"
    by (intro conjI su stop range before tr ck v l ne et)
  note b = U [THEN conjunct2, THEN conjunct2, THEN conjunct2, THEN conjunct2, THEN conjunct2,
      THEN conjunct1, THEN mp, OF chain, THEN conjunct2, THEN conjunct2, THEN conjunct2]
  from keys have k:
    "getitem (yaml_load ?fw (arg_config demo_test_args)) ''test_dataset'' = Inr demo_dataset
     \<and> getitem demo_dataset ''dataset'' = Inr (PStr ''image-folder'')
     \<and> getitem demo_dataset ''wrapper'' = Inr (PStr ''train'')
     \<and> getitem demo_dataset ''batch_size'' = Inr (PInt 1)
     \<and> getitem (yaml_load ?fw (arg_config demo_test_args)) ''model'' = Inr ?model_spec
     \<and> cfg_get (yaml_load ?fw (arg_config demo_test_args)) ''eval_type'' = Inr (PStr ''psnr'')
     \<and> test_loader ?fw (PStr ''image-folder'') (PStr ''train'') (PInt 1) \<noteq> []"
    by (intro conjI)
  note c = U [THEN conjunct2, THEN conjunct2, THEN conjunct2, THEN conjunct2, THEN conjunct2,
      THEN conjunct2, THEN mp, OF k]
  note d = inst [where eval_type = "PStr ''cod''" and metric_fn = "scalar_metric 4"
      and names = "(''sm'', ''em'', ''wfm'', ''mae'')", THEN conjunct2, THEN conjunct2, THEN conjunct2,
      THEN conjunct2, THEN conjunct2, THEN conjunct1, THEN mp, OF conjI [OF sel ne], THEN conjunct1]
  have e: "scalar_metric 4 (cat_preds ?fw 0 [demo_batch]) (cat_gts ?fw [demo_batch]) None = (4, 2, 3, 4)"
    by (simp add: scalar_metric_def)
  have f: "model_eval ?fw 0 = 0"
    by (simp add: scalar_framework_def)
  from out sel a b c d e f show ?thesis by simp
qed

subsection \<open>The claim about the flag of test.py\<close>

text \<open>
  Claim C5. The flag \<^verbatim>\<open>--prompt\<close> is parsed and never read: two runs of test.py that
  differ in the value of the flag only yield the same result (or the same fault) and leave
  the same world, that is the same printed lines and the same files.
\<close>

theorem prompt_flag_unused:
  "test_script fw (args\<lparr>arg_prompt := p\<rparr>) w = test_script fw args w"
  by (simp add: test_script_def)

subsection \<open>The claim about the losses\<close>




end
